theory Spec2Isabelle
  imports Main
begin

section \<open>The world the extension runs in\<close>

text \<open>
  The extension is single-threaded JavaScript: every function below runs to its next
  \<^verbatim>\<open>await\<close> without interruption. Mutable module state is passed explicitly; everything
  supplied by VS Code, the operating system or the board is read from an environment
  record at the moment the source reads it.
\<close>

subsection \<open>State of \<^verbatim>\<open>class SerialMonitor\<close> (syncView.ts)\<close>

record serial_monitor =
  timer :: "nat option"          \<comment> \<open>\<^verbatim>\<open>timer?: NodeJS.Timeout\<close>, the handle of the last setTimeout\<close>
  busy :: bool
  running :: bool
  out :: "string list option"    \<comment> \<open>the output channel and the lines appended to it\<close>

definition intervalMs :: nat where "intervalMs = 2000"
definition windowMs :: nat where "windowMs = 400"

subsection \<open>Static state of \<^verbatim>\<open>class PythonInterpreterManager\<close> (pythonInterpreter.ts)\<close>

record interpreter_manager =
  cachedInterpreter :: "string option"
  lastCacheTime :: int
  lastMpremoteNotification :: int

definition CACHE_DURATION :: int where "CACHE_DURATION = 30000"
definition NOTIFICATION_COOLDOWN :: int where "NOTIFICATION_COOLDOWN = 300000"

subsection \<open>Subprocesses and the event loop\<close>

record proc =
  program :: string
  arguments :: "string list"
  timeout_ms :: "nat option"     \<comment> \<open>the \<^verbatim>\<open>timeout\<close> option of execFile; spawn has none\<close>

record world =
  mon :: serial_monitor
  pim :: interpreter_manager
  timeouts :: "nat list"         \<comment> \<open>handles armed by setTimeout for a poll and neither fired nor cleared\<close>
  next_handle :: nat             \<comment> \<open>the handle the next setTimeout returns\<close>
  procs :: "proc list"           \<comment> \<open>every subprocess launched so far, oldest first\<close>
  warnings :: "string list"      \<comment> \<open>interpreters for which the mpremote warning was shown\<close>
  clock :: int                   \<comment> \<open>what \<^verbatim>\<open>Date.now()\<close> returns\<close>

section \<open>SerialMonitor\<close>

text \<open>\<^verbatim>\<open>clearTimeout(h)\<close>: the handle is disarmed; clearing a fired handle does nothing.\<close>

definition clearTimeout :: "nat \<Rightarrow> world \<Rightarrow> world" where
  "clearTimeout h w = w\<lparr>timeouts := removeAll h (timeouts w)\<rparr>"

text \<open>
  \<^verbatim>\<open>private schedule()\<close>: guarded by \<^verbatim>\<open>!this.running || this.busy\<close>; clears the
  previous handle, arms a fresh one that will call \<^verbatim>\<open>tick\<close> after \<open>intervalMs\<close>.
\<close>

definition schedule :: "world \<Rightarrow> world" where
  "schedule w =
     (if \<not> running (mon w) \<or> busy (mon w) then w
      else
        let w1 = (case timer (mon w) of Some h \<Rightarrow> clearTimeout h w | None \<Rightarrow> w);
            h' = next_handle w1
        in w1\<lparr>timeouts := timeouts w1 @ [h'],
               next_handle := Suc h',
               mon := (mon w1)\<lparr>timer := Some h'\<rparr>\<rparr>)"

definition start :: "world \<Rightarrow> world" where
  "start w =
     (if running (mon w) then w
      else
        let w1 = w\<lparr>mon := (mon w)\<lparr>out := (case out (mon w) of None \<Rightarrow> Some [] | Some ls \<Rightarrow> Some ls)\<rparr>\<rparr>;
            w2 = w1\<lparr>mon := (mon w1)\<lparr>running := True\<rparr>\<rparr>
        in schedule w2)"

definition stop :: "world \<Rightarrow> world" where
  "stop w =
     (let w1 = w\<lparr>mon := (mon w)\<lparr>running := False\<rparr>\<rparr>
      in case timer (mon w1) of
           Some h \<Rightarrow> (let w2 = clearTimeout h w1 in w2\<lparr>mon := (mon w2)\<lparr>timer := None\<rparr>\<rparr>)
         | None \<Rightarrow> w1)"

definition isRunning :: "world \<Rightarrow> bool" where
  "isRunning w = running (mon w)"

text \<open>
  \<^verbatim>\<open>suspendDuring(fn)\<close>. The wrapped operation is a transformer of the world: it stands for
  everything that happens between the call of \<^verbatim>\<open>fn\<close> and the settling of its promise,
  and yields \<open>Inl e\<close> when \<^verbatim>\<open>fn\<close> throws or rejects with \<open>e\<close>, \<open>Inr v\<close> when it resolves
  to \<open>v\<close>. The \<^verbatim>\<open>finally\<close> block runs in both cases and the outcome is passed on.
\<close>

definition acquire :: "world \<Rightarrow> world" where
  "acquire w = w\<lparr>mon := (mon w)\<lparr>busy := True\<rparr>\<rparr>"

definition release :: "bool \<Rightarrow> world \<Rightarrow> world" where
  "release wasRunning w =
     (let w1 = w\<lparr>mon := (mon w)\<lparr>busy := False\<rparr>\<rparr>
      in if wasRunning then schedule w1 else w1)"

definition suspendDuring :: "(world \<Rightarrow> ('e + 'a) \<times> world) \<Rightarrow> world \<Rightarrow> ('e + 'a) \<times> world" where
  "suspendDuring fn w =
     (let wasRunning = running (mon w);
          (r, w') = fn (acquire w)
      in (r, release wasRunning w'))"

text \<open>Polling is armed when the monitor's current handle is still waiting to fire.\<close>

definition polling_armed :: "world \<Rightarrow> bool" where
  "polling_armed w = (case timer (mon w) of Some h \<Rightarrow> h \<in> set (timeouts w) | None \<Rightarrow> False)"


section \<open>JavaScript values and the environment\<close>

text \<open>The outcome of a call into code outside this repository.\<close>

datatype 'a js = Throws string | Returns 'a

text \<open>What \<^verbatim>\<open>JSON.parse\<close> yields. A number is kept as its text.\<close>

datatype json =
    JNull
  | JBool bool
  | JNumber string
  | JString string
  | JArray "json list"
  | JObject "(string \<times> json) list"

text \<open>
  How an \<^verbatim>\<open>execFile\<close> call ends: \<open>Exited stdout stderr\<close> when the callback's
  \<^verbatim>\<open>err\<close> is null, \<open>Failed message stdout stderr\<close> when the child could not be started,
  exited with a non-zero code or was killed at the timeout.
\<close>

datatype exec_result = Exited string string | Failed string string string

text \<open>The Python extension's API object, as far as getPythonFromExtensionAPI looks at it.\<close>

record python_api =
  getExecutionDetails :: "(string option \<Rightarrow> string list option js) option"
    \<comment> \<open>\<open>None\<close>: \<^verbatim>\<open>settings.getExecutionDetails\<close> is missing; the call yields \<^verbatim>\<open>execCommand\<close>, if any\<close>
  getActiveInterpreter :: "(string option \<Rightarrow> string option js) option"
    \<comment> \<open>\<open>None\<close>: the method is missing; the call yields \<^verbatim>\<open>interpreter.path\<close>, if any\<close>

record python_extension =
  isActive :: bool
  activate :: "unit js"
  exports :: "python_api option"

record env =
  config :: "string option \<Rightarrow> string \<Rightarrow> string option"
    \<comment> \<open>\<^verbatim>\<open>getConfiguration(section, scope).get<string>(key)\<close> by scope and dotted key\<close>
  config_bool :: "string \<Rightarrow> bool option"
    \<comment> \<open>\<^verbatim>\<open>getConfiguration().get<boolean>(key)\<close>\<close>
  platform :: string
  LOCALAPPDATA :: "string option"
  path_join :: "string list \<Rightarrow> string"                  \<comment> \<open>Node's \<^verbatim>\<open>path.join\<close>\<close>
  JSON_parse :: "string \<Rightarrow> json option"                 \<comment> \<open>\<open>None\<close>: SyntaxError\<close>
  pythonExtension :: "python_extension option"            \<comment> \<open>\<^verbatim>\<open>getExtension('ms-python.python')\<close>\<close>
  extensionPath :: "string option"                        \<comment> \<open>of \<^verbatim>\<open>WebForks.MicroPython-WorkBench\<close>\<close>
  execFile :: "string \<Rightarrow> string list \<Rightarrow> nat \<Rightarrow> exec_result \<times> nat"
    \<comment> \<open>program, arguments, timeout: the outcome and the milliseconds it took\<close>
  workspaceFolder :: "string option"                      \<comment> \<open>\<^verbatim>\<open>workspaceFolders?.[0].uri.fsPath\<close>\<close>
  existsSync :: "string \<Rightarrow> bool"
  readFileSync :: "string \<Rightarrow> string js"

subsection \<open>String helpers of the JavaScript library\<close>

definition startsWith :: "string \<Rightarrow> string \<Rightarrow> bool" where
  "startsWith s p = (take (length p) s = p)"

text \<open>
  \<^verbatim>\<open>String.prototype.trim\<close>. A string is its UTF-8 bytes; \<open>white_space\<close> lists the
  encodings of what trim strips: the WhiteSpace code points (TAB, VT, FF, SP, U+00A0,
  U+FEFF and the space separators U+1680, U+2000 to U+200A, U+202F, U+205F, U+3000) and
  the LineTerminators (LF, CR, U+2028, U+2029).
\<close>

definition endsWith :: "string \<Rightarrow> string \<Rightarrow> bool" where
  "endsWith s p = (drop (length s - length p) s = p)"

definition white_space :: "string list" where
  "white_space =
     [[CHR 0x09], [CHR 0x0A], [CHR 0x0B], [CHR 0x0C], [CHR 0x0D], [CHR 0x20],
      [CHR 0xC2, CHR 0xA0],
      [CHR 0xE1, CHR 0x9A, CHR 0x80],
      [CHR 0xE2, CHR 0x80, CHR 0x80], [CHR 0xE2, CHR 0x80, CHR 0x81],
      [CHR 0xE2, CHR 0x80, CHR 0x82], [CHR 0xE2, CHR 0x80, CHR 0x83],
      [CHR 0xE2, CHR 0x80, CHR 0x84], [CHR 0xE2, CHR 0x80, CHR 0x85],
      [CHR 0xE2, CHR 0x80, CHR 0x86], [CHR 0xE2, CHR 0x80, CHR 0x87],
      [CHR 0xE2, CHR 0x80, CHR 0x88], [CHR 0xE2, CHR 0x80, CHR 0x89],
      [CHR 0xE2, CHR 0x80, CHR 0x8A],
      [CHR 0xE2, CHR 0x80, CHR 0xA8], [CHR 0xE2, CHR 0x80, CHR 0xA9],
      [CHR 0xE2, CHR 0x80, CHR 0xAF],
      [CHR 0xE2, CHR 0x81, CHR 0x9F],
      [CHR 0xE3, CHR 0x80, CHR 0x80],
      [CHR 0xEF, CHR 0xBB, CHR 0xBF]]"

function trimStart :: "string \<Rightarrow> string" where
  "trimStart s =
     (case find (startsWith s) white_space of
        None \<Rightarrow> s
      | Some p \<Rightarrow> if p = [] then s else trimStart (drop (length p) s))"
  by pat_completeness auto
termination
proof (relation "measure length")
  show "wf (measure length)" by simp
next
  fix s p
  assume f: "find (startsWith s) white_space = Some p" and p: "p \<noteq> []"
  from f have "startsWith s p" by (auto simp add: find_Some_iff)
  then have "take (length p) s = p" by (simp add: startsWith_def)
  with p have "s \<noteq> []" by auto
  with p show "(drop (length p) s, s) \<in> measure length" by simp
qed

function trimEnd :: "string \<Rightarrow> string" where
  "trimEnd s =
     (case find (endsWith s) white_space of
        None \<Rightarrow> s
      | Some p \<Rightarrow> if p = [] then s else trimEnd (take (length s - length p) s))"
  by pat_completeness auto
termination
proof (relation "measure length")
  show "wf (measure length)" by simp
next
  fix s p
  assume f: "find (endsWith s) white_space = Some p" and p: "p \<noteq> []"
  from f have "endsWith s p" by (auto simp add: find_Some_iff)
  then have "drop (length s - length p) s = p" by (simp add: endsWith_def)
  with p have "s \<noteq> []" by auto
  with p show "(take (length s - length p) s, s) \<in> measure length" by simp
qed

declare trimStart.simps [simp del] trimEnd.simps [simp del]

definition trim :: "string \<Rightarrow> string" where
  "trim s = trimEnd (trimStart s)"

primrec includes_str :: "string \<Rightarrow> string \<Rightarrow> bool" where
  "includes_str [] sub = (sub = [])"
| "includes_str (c # cs) sub = (startsWith (c # cs) sub \<or> includes_str cs sub)"

text \<open>\<^verbatim>\<open>s.replace(/^p/, "")\<close> for a literal prefix \<open>p\<close>.\<close>

definition replace_prefix :: "string \<Rightarrow> string \<Rightarrow> string" where
  "replace_prefix p s = (if startsWith s p then drop (length p) s else s)"

definition device_of :: "string \<Rightarrow> string" where
  "device_of connect = replace_prefix ''serial:/'' (replace_prefix ''serial://'' connect)"

section \<open>PythonInterpreterManager\<close>

record validation =
  valid :: bool
  missingMpremote :: bool
  error :: "string option"

text \<open>One \<^verbatim>\<open>execFile\<close>: the child is recorded, the clock moves on by the time it took.\<close>

definition run_execFile :: "env \<Rightarrow> string \<Rightarrow> string list \<Rightarrow> nat \<Rightarrow> world \<Rightarrow> exec_result \<times> world" where
  "run_execFile e prog args tmo w =
     (let (r, ms) = execFile e prog args tmo
      in (r, w\<lparr>procs := procs w @ [\<lparr>program = prog, arguments = args, timeout_ms = Some tmo\<rparr>],
                clock := clock w + int ms\<rparr>))"

text \<open>The \<^verbatim>\<open>catch\<close> block of validatePythonPath, on \<^verbatim>\<open>error.message || String(error)\<close>.\<close>

definition classify_error :: "string \<Rightarrow> validation" where
  "classify_error message =
     (let errorMessage = (if message \<noteq> [] then message else ''Error'')
      in if includes_str errorMessage ''mpremote'' \<and>
            (includes_str errorMessage ''not found'' \<or> includes_str errorMessage ''command not found'')
         then \<lparr>valid = False, missingMpremote = True, error = Some errorMessage\<rparr>
         else \<lparr>valid = False, missingMpremote = False, error = Some errorMessage\<rparr>)"

definition validatePythonPath :: "env \<Rightarrow> string \<Rightarrow> world \<Rightarrow> validation \<times> world" where
  "validatePythonPath e pythonPath w =
     (case run_execFile e pythonPath [''-c'', ''import sys; print(sys.version)''] 5000 w of
        (Failed message _ _, w1) \<Rightarrow> (classify_error message, w1)
      | (Exited _ _, w1) \<Rightarrow>
          (case run_execFile e ''mpremote'' [''--version''] 5000 w1 of
             (Failed message _ _, w2) \<Rightarrow> (classify_error message, w2)
           | (Exited _ _, w2) \<Rightarrow> (\<lparr>valid = True, missingMpremote = False, error = None\<rparr>, w2)))"

text \<open>
  showMpremoteInstallationNotification up to the call of \<^verbatim>\<open>showWarningMessage\<close>; what
  the user then clicks arrives later as an event of its own.
\<close>

definition showMpremoteInstallationNotification :: "string \<Rightarrow> world \<Rightarrow> world" where
  "showMpremoteInstallationNotification pythonPath w =
     (let now = clock w
      in if now - lastMpremoteNotification (pim w) < NOTIFICATION_COOLDOWN then w
         else w\<lparr>pim := (pim w)\<lparr>lastMpremoteNotification := now\<rparr>,
                 warnings := warnings w @ [pythonPath]\<rparr>)"

definition cacheResult :: "string \<Rightarrow> world \<Rightarrow> world" where
  "cacheResult pythonPath w =
     w\<lparr>pim := (pim w)\<lparr>cachedInterpreter := Some pythonPath, lastCacheTime := clock w\<rparr>\<rparr>"

definition clearCache :: "world \<Rightarrow> world" where
  "clearCache w = w\<lparr>pim := (pim w)\<lparr>cachedInterpreter := None, lastCacheTime := 0\<rparr>\<rparr>"

text \<open>getPythonFromExtensionAPI: every exception inside is caught and turned into null.\<close>

definition getPythonFromExtensionAPI :: "env \<Rightarrow> string option \<Rightarrow> string option" where
  "getPythonFromExtensionAPI e uri =
     (case pythonExtension e of
        None \<Rightarrow> None
      | Some ext \<Rightarrow>
          (case (if isActive ext then Returns () else activate ext) of
             Throws _ \<Rightarrow> None
           | Returns _ \<Rightarrow>
               (case exports ext of
                  None \<Rightarrow> None
                | Some api \<Rightarrow>
                    let older =
                      (case getActiveInterpreter api of
                         None \<Rightarrow> None
                       | Some g \<Rightarrow>
                           (case g uri of
                              Throws _ \<Rightarrow> None
                            | Returns None \<Rightarrow> None
                            | Returns (Some p) \<Rightarrow> if p \<noteq> [] then Some p else None))
                    in (case getExecutionDetails api of
                          None \<Rightarrow> older
                        | Some g \<Rightarrow>
                            (case g uri of
                               Throws _ \<Rightarrow> None
                             | Returns None \<Rightarrow> older
                             | Returns (Some []) \<Rightarrow> older
                             | Returns (Some (c # _)) \<Rightarrow> Some c)))))"

text \<open>The loop of getPythonFromConfiguration over the keys of the \<^verbatim>\<open>python\<close> section.\<close>

fun first_configured :: "env \<Rightarrow> string option \<Rightarrow> string list \<Rightarrow> string option" where
  "first_configured e uri [] = None"
| "first_configured e uri (key # keys) =
     (case config e uri (''python.'' @ key) of
        Some pythonPath \<Rightarrow>
          if pythonPath \<noteq> [] \<and> trim pythonPath \<noteq> [] then Some (trim pythonPath)
          else first_configured e uri keys
      | None \<Rightarrow> first_configured e uri keys)"

definition getPythonFromConfiguration :: "env \<Rightarrow> string option \<Rightarrow> string option" where
  "getPythonFromConfiguration e uri =
     (case config e uri ''microPythonWorkBench.pythonPath'' of
        Some mpyPythonPath \<Rightarrow>
          if mpyPythonPath \<noteq> [] \<and> trim mpyPythonPath \<noteq> [] then Some (trim mpyPythonPath)
          else first_configured e uri [''defaultInterpreterPath'', ''pythonPath'']
      | None \<Rightarrow> first_configured e uri [''defaultInterpreterPath'', ''pythonPath''])"

definition getFallbackPythonPaths :: "env \<Rightarrow> string list" where
  "getFallbackPythonPaths e =
     (let isWindows = (platform e = ''win32'');
          base = (case LOCALAPPDATA e of None \<Rightarrow> [] | Some d \<Rightarrow> d)
      in if isWindows then
           [''python'', ''python3'', ''py -3'', ''py'',
            path_join e [base, ''Programs'', ''Python'', ''Python39'', ''python.exe''],
            path_join e [base, ''Programs'', ''Python'', ''Python310'', ''python.exe''],
            path_join e [base, ''Programs'', ''Python'', ''Python311'', ''python.exe''],
            path_join e [base, ''Programs'', ''Python'', ''Python312'', ''python.exe'']]
         else
           [''python3'', ''python'', ''/usr/bin/python3'', ''/usr/local/bin/python3'',
            ''/opt/homebrew/bin/python3'', ''/usr/bin/python'', ''/usr/local/bin/python''])"

text \<open>
  One candidate of method 1 or 2: validate it; when valid, cache and return it; when only
  mpremote is missing, show the warning and go on.
\<close>

definition try_candidate :: "env \<Rightarrow> string option \<Rightarrow> world \<Rightarrow> string option \<times> world" where
  "try_candidate e cand w =
     (case cand of
        None \<Rightarrow> (None, w)
      | Some pythonPath \<Rightarrow>
          if pythonPath = [] then (None, w)
          else
            (case validatePythonPath e pythonPath w of
               (v, w1) \<Rightarrow>
                 if valid v then (Some pythonPath, cacheResult pythonPath w1)
                 else if missingMpremote v
                   then (None, showMpremoteInstallationNotification pythonPath w1)
                   else (None, w1)))"

text \<open>Method 3, the \<^verbatim>\<open>for\<close> loop over the fallbacks.\<close>

fun try_fallbacks :: "env \<Rightarrow> string list \<Rightarrow> world \<Rightarrow> string option \<times> world" where
  "try_fallbacks e [] w = (None, w)"
| "try_fallbacks e (fallback # rest) w =
     (case validatePythonPath e fallback w of
        (v, w1) \<Rightarrow>
          if valid v then (Some fallback, cacheResult fallback w1)
          else if missingMpremote v
            then try_fallbacks e rest (showMpremoteInstallationNotification fallback w1)
            else try_fallbacks e rest w1)"

text \<open>
  The cache check at the head of getPythonPath:
  \<^verbatim>\<open>this.cachedInterpreter && (now - this.lastCacheTime) < this.CACHE_DURATION\<close>.
\<close>

definition cache_hit :: "world \<Rightarrow> string option" where
  "cache_hit w =
     (let now = clock w
      in case cachedInterpreter (pim w) of
           Some c \<Rightarrow> if c \<noteq> [] \<and> now - lastCacheTime (pim w) < CACHE_DURATION
                     then Some c else None
         | None \<Rightarrow> None)"

definition getPythonPath :: "env \<Rightarrow> string option \<Rightarrow> world \<Rightarrow> string \<times> world" where
  "getPythonPath e folder w =
     (case cache_hit w of
           Some c \<Rightarrow> (c, w)
         | None \<Rightarrow>
             (case try_candidate e (getPythonFromExtensionAPI e folder) w of
                (Some p, w1) \<Rightarrow> (p, w1)
              | (None, w1) \<Rightarrow>
                  (case try_candidate e (getPythonFromConfiguration e folder) w1 of
                     (Some p, w2) \<Rightarrow> (p, w2)
                   | (None, w2) \<Rightarrow>
                       (case try_fallbacks e (getFallbackPythonPaths e) w2 of
                          (Some p, w3) \<Rightarrow> (p, w3)
                        | (None, w3) \<Rightarrow>
                            (let lastResort = ''python3''
                             in (lastResort, cacheResult lastResort w3))))))"


section \<open>The poll cycle of SerialMonitor\<close>

text \<open>
  \<^verbatim>\<open>private async tick()\<close> has two awaits, so it runs in three uninterrupted pieces.
  \<open>tick_enter\<close> is the part up to \<^verbatim>\<open>await getPythonPath()\<close>: the guard, the read of the
  configured port and the arguments of the reader. \<open>None\<close> means the guard returned.
\<close>

definition tick_enter :: "env \<Rightarrow> world \<Rightarrow> string list option" where
  "tick_enter e w =
     (if \<not> running (mon w) \<or> busy (mon w) then None
      else
        let connect = (case config e None ''microPythonWorkBench.connect'' of
                         None \<Rightarrow> ''auto'' | Some c \<Rightarrow> c);
            device = device_of connect
        in Some [''-m'', ''serial.tools.miniterm'', device, ''115200'', ''--eol'', ''LF''])"

text \<open>
  \<open>tick_spawn\<close>: the interpreter lookup has settled and the reader is spawned. (The kill
  timer of \<open>windowMs\<close> that follows is not a poll timer and is not kept in \<open>timeouts\<close>.)
\<close>

definition tick_spawn :: "env \<Rightarrow> string list \<Rightarrow> world \<Rightarrow> world" where
  "tick_spawn e args w =
     (case getPythonPath e None w of
        (pythonPath, w1) \<Rightarrow>
          w1\<lparr>procs := procs w1 @ [\<lparr>program = pythonPath, arguments = args, timeout_ms = None\<rparr>]\<rparr>)"

text \<open>\<open>tick_close\<close>: the reader has closed with \<open>buf\<close> on stdout and \<open>err\<close> on stderr.\<close>

definition appendLine :: "string \<Rightarrow> world \<Rightarrow> world" where
  "appendLine text w =
     w\<lparr>mon := (mon w)\<lparr>out := (case out (mon w) of None \<Rightarrow> None | Some ls \<Rightarrow> Some (ls @ [text]))\<rparr>\<rparr>"

definition tick_close :: "string \<Rightarrow> string \<Rightarrow> world \<Rightarrow> world" where
  "tick_close buf err w =
     (let text = trim (if buf \<noteq> [] then buf else err);
          w1 = (if text \<noteq> [] then appendLine text w else w)
      in if running (mon w1) \<and> \<not> busy (mon w1) then schedule w1 else w1)"

text \<open>A whole cycle with nothing in between.\<close>

definition tick :: "env \<Rightarrow> string \<Rightarrow> string \<Rightarrow> world \<Rightarrow> world" where
  "tick e buf err w =
     (case tick_enter e w of
        None \<Rightarrow> w
      | Some args \<Rightarrow> tick_close buf err (tick_spawn e args w))"

text \<open>
  The event loop fires an armed handle: the handle leaves \<open>timeouts\<close> and the callback
  \<^verbatim>\<open>() => this.tick()\<close> runs up to its first await. A handle that is not armed never fires.
  The result is the world and, when the guard let the cycle through, the arguments the
  cycle will spawn its reader with.
\<close>

definition fire :: "env \<Rightarrow> nat \<Rightarrow> world \<Rightarrow> string list option \<times> world" where
  "fire e h w =
     (if h \<in> set (timeouts w)
      then (let w1 = w\<lparr>timeouts := removeAll h (timeouts w)\<rparr> in (tick_enter e w1, w1))
      else (None, w))"

text \<open>Any number of handles firing one after the other, as during a long operation.\<close>

fun fire_all :: "env \<Rightarrow> nat list \<Rightarrow> world \<Rightarrow> string list option list \<times> world" where
  "fire_all e [] w = ([], w)"
| "fire_all e (h # hs) w =
     (case fire e h w of
        (r, w1) \<Rightarrow> (case fire_all e hs w1 of (rs, w2) \<Rightarrow> (r # rs, w2)))"

section \<open>listDirPyRaw (pyraw.ts)\<close>

datatype js_error = Error string | TypeError string

definition listDirPyRaw :: "env \<Rightarrow> string \<Rightarrow> world \<Rightarrow> (js_error + json list) \<times> world" where
  "listDirPyRaw e dirPath w =
     (let configured = (case config e None ''microPythonWorkBench.connect'' of
                          None \<Rightarrow> ''auto'' | Some c \<Rightarrow> c);
          connect = (if configured \<noteq> [] then configured else ''auto'')
      in if connect = [] \<or> connect = ''auto''
         then (Inl (Error ''No fixed serial port selected''), w)
         else
           let device = device_of connect
           in case extensionPath e of
                None \<Rightarrow> (Inl (TypeError ''Cannot read properties of undefined''), w)
              | Some ep \<Rightarrow>
                  let script = path_join e [ep, ''scripts'', ''thonny_list_files.py'']
                  in case getPythonPath e None w of
                       (pythonPath, w1) \<Rightarrow>
                         (case run_execFile e pythonPath
                                 [script, ''--port'', device, ''--baudrate'', ''115200'',
                                  ''--path'', dirPath] 10000 w1 of
                            (Failed message stdout stderr, w2) \<Rightarrow>
                              (Inl (Error (if stderr \<noteq> [] then stderr else message)), w2)
                          | (Exited stdout stderr, w2) \<Rightarrow>
                              (case JSON_parse e (if stdout \<noteq> [] then stdout else ''[]'') of
                                 Some (JArray data) \<Rightarrow> (Inr data, w2)
                               | _ \<Rightarrow> (Inr [], w2))))"

section \<open>SyncTree.getActionNodes (syncView.ts)\<close>

record sync_action_node =
  node_id :: string
  label :: string
  command :: string

definition arrow :: string where
  "arrow = [CHR 0xE2, CHR 0x86, CHR 0x92]"

text \<open>
  \<^verbatim>\<open>cfg.autoSyncOnSave\<close> on a parsed value: a TypeError on \<^verbatim>\<open>null\<close>, the member of an
  object (the last one of a repeated key), \<^verbatim>\<open>undefined\<close> on anything else.
\<close>

definition get_autoSyncOnSave :: "json \<Rightarrow> json option js" where
  "get_autoSyncOnSave cfg =
     (case cfg of
        JNull \<Rightarrow> Throws ''TypeError''
      | JObject members \<Rightarrow> Returns (map_of (rev members) ''autoSyncOnSave'')
      | _ \<Rightarrow> Returns None)"

text \<open>The body of the \<^verbatim>\<open>try\<close> block for a workspace folder: the flag, or the exception.\<close>

definition autoSync_enabled :: "env \<Rightarrow> string \<Rightarrow> bool js" where
  "autoSync_enabled e fsPath =
     (let file = fsPath @ ''/.mpy-workbench/config.json'';
          cfg = (if existsSync e file
                 then (case readFileSync e file of
                         Throws x \<Rightarrow> Throws x
                       | Returns content \<Rightarrow>
                           (case JSON_parse e content of
                              None \<Rightarrow> Throws ''SyntaxError''
                            | Some j \<Rightarrow> Returns j))
                 else Returns (JObject []))
      in case cfg of
           Throws x \<Rightarrow> Throws x
         | Returns j \<Rightarrow>
             (case get_autoSyncOnSave j of
                Throws x \<Rightarrow> Throws x
              | Returns (Some (JBool b)) \<Rightarrow> Returns b
              | Returns _ \<Rightarrow>
                  Returns (case config_bool e ''microPythonWorkBench.autoSyncOnSave'' of
                             None \<Rightarrow> False | Some b \<Rightarrow> b)))"

definition autoSyncLabel :: "env \<Rightarrow> string" where
  "autoSyncLabel e =
     (case workspaceFolder e of
        None \<Rightarrow> ''Toggle AutoSync''
      | Some fsPath \<Rightarrow>
          (case autoSync_enabled e fsPath of
             Throws _ \<Rightarrow> ''Toggle AutoSync''
           | Returns enabled \<Rightarrow>
               if enabled then ''AutoSync: ON (click to disable)''
               else ''AutoSync: OFF (click to enable)''))"

definition getActionNodes :: "env \<Rightarrow> sync_action_node list" where
  "getActionNodes e =
     [\<lparr>node_id = ''toggleAutoSync'', label = autoSyncLabel e,
       command = ''microPythonWorkBench.toggleWorkspaceAutoSync''\<rparr>,
      \<lparr>node_id = ''baseline'', label = ''Upload all files (Local '' @ arrow @ '' Board)'',
       command = ''microPythonWorkBench.syncBaseline''\<rparr>,
      \<lparr>node_id = ''baselineFromBoard'', label = ''Download all files (Board '' @ arrow @ '' Local)'',
       command = ''microPythonWorkBench.syncBaselineFromBoard''\<rparr>,
      \<lparr>node_id = ''checkDiffs'', label = ''Check for differences (local vs board)'',
       command = ''microPythonWorkBench.checkDiffs''\<rparr>,
      \<lparr>node_id = ''syncDiffsLocalToBoard'', label = ''Sync changed Files Local '' @ arrow @ '' Board'',
       command = ''microPythonWorkBench.syncDiffsLocalToBoard''\<rparr>,
      \<lparr>node_id = ''syncDiffsBoardToLocal'', label = ''Sync changed Files Board '' @ arrow @ '' Local'',
       command = ''microPythonWorkBench.syncDiffsBoardToLocal''\<rparr>,
      \<lparr>node_id = ''deleteAllBoard'', label = ''Delete ALL files on Board'',
       command = ''microPythonWorkBench.deleteAllBoard''\<rparr>]"


section \<open>Invariant and concrete scenarios\<close>

text \<open>At most the monitor's current handle is armed.\<close>

definition timers_inv :: "world \<Rightarrow> bool" where
  "timers_inv w = (set (timeouts w) \<subseteq> (case timer (mon w) of None \<Rightarrow> {} | Some h \<Rightarrow> {h}))"

text \<open>The state after the module initialisers have run, at time \<open>t\<close>.\<close>

definition initial_world :: "int \<Rightarrow> world" where
  "initial_world t =
     \<lparr>mon = \<lparr>timer = None, busy = False, running = False, out = None\<rparr>,
      pim = \<lparr>cachedInterpreter = None, lastCacheTime = 0, lastMpremoteNotification = 0\<rparr>,
      timeouts = [], next_handle = 0, procs = [], warnings = [], clock = t\<rparr>"


text \<open>
  Operations as \<^verbatim>\<open>suspendDuring\<close> may receive them: one that touches nothing, one that
  fails, and the same two while a \<^verbatim>\<open>stop\<close> command is handled before they settle.
\<close>

definition quiet_operation :: "world \<Rightarrow> (string + unit) \<times> world" where
  "quiet_operation w = (Inr (), w)"

definition failing_operation :: "world \<Rightarrow> (string + unit) \<times> world" where
  "failing_operation w = (Inl ''write failed'', w)"

definition stopped_meanwhile :: "world \<Rightarrow> (string + unit) \<times> world" where
  "stopped_meanwhile w = (Inr (), stop w)"

definition failed_and_stopped :: "world \<Rightarrow> (string + unit) \<times> world" where
  "failed_and_stopped w = (Inl ''write failed'', stop w)"

text \<open>An operation that settles with \<open>r\<close> while the handles \<open>hs\<close> fire one after the other.\<close>

definition polls_during :: "env \<Rightarrow> nat list \<Rightarrow> ('e + 'a) \<Rightarrow> world \<Rightarrow> ('e + 'a) \<times> world" where
  "polls_during e hs r w = (r, snd (fire_all e hs w))"

text \<open>
  A Linux machine: the port is configured as given, no Python extension, no interpreter
  setting, every subprocess exits with code 0 and empty output after 10 ms.
\<close>

definition posix_join :: "string list \<Rightarrow> string" where
  "posix_join segs =
     (case filter (\<lambda>s. s \<noteq> []) segs of
        [] \<Rightarrow> ''.''
      | s # ss \<Rightarrow> foldl (\<lambda>acc x. acc @ ''/'' @ x) s ss)"

definition only_empty_array :: "string \<Rightarrow> json option" where
  "only_empty_array s = (if s = ''[]'' then Some (JArray []) else None)"

definition linux_env :: "string option \<Rightarrow> env" where
  "linux_env port =
     \<lparr>config = (\<lambda>scope key. if key = ''microPythonWorkBench.connect'' then port else None),
      config_bool = (\<lambda>key. None),
      platform = ''linux'',
      LOCALAPPDATA = None,
      path_join = posix_join,
      JSON_parse = only_empty_array,
      pythonExtension = None,
      extensionPath = Some ''/ext'',
      execFile = (\<lambda>prog args tmo. (Exited [] [], 10)),
      workspaceFolder = Some ''/ws'',
      existsSync = (\<lambda>file. False),
      readFileSync = (\<lambda>file. Throws ''ENOENT'')\<rparr>"

text \<open>The same machine with no Python at all: every subprocess fails to start.\<close>

definition no_python_env :: env where
  "no_python_env = (linux_env None)\<lparr>execFile := (\<lambda>prog args tmo. (Failed ''spawn ENOENT'' [] [], 1))\<rparr>"

text \<open>The same machine with a board tool whose every run ends as given, after 10 ms.\<close>

definition board_env :: "string option \<Rightarrow> exec_result \<Rightarrow> env" where
  "board_env port outcome = (linux_env port)\<lparr>execFile := (\<lambda>prog args tmo. (outcome, 10))\<rparr>"

text \<open>A user who has put a baud rate of 9600 into the settings.\<close>

definition baud_9600_env :: env where
  "baud_9600_env =
     (linux_env None)\<lparr>config := (\<lambda>scope key.
        if key = ''microPythonWorkBench.connect'' then Some ''/dev/ttyUSB0''
        else if key = ''microPythonWorkBench.baudrate'' then Some ''9600''
        else None)\<rparr>"

text \<open>
  A workspace \<^verbatim>\<open>/ws\<close> whose \<^verbatim>\<open>.mpy-workbench/config.json\<close> holds the given text, or
  does not exist; the VS Code setting \<^verbatim>\<open>autoSyncOnSave\<close> is as given. The parser knows
  the few texts used here and rejects everything else.
\<close>

definition small_parser :: "string \<Rightarrow> json option" where
  "small_parser s =
     (if s = ''[]'' then Some (JArray [])
      else if s = ''{}'' then Some (JObject [])
      else if s = ''null'' then Some JNull
      else if s = ''{\"autoSyncOnSave\": true}'' then Some (JObject [(''autoSyncOnSave'', JBool True)])
      else if s = ''{\"autoSyncOnSave\": false}'' then Some (JObject [(''autoSyncOnSave'', JBool False)])
      else if s = ''{\"autoSyncOnSave\": \"yes\"}'' then Some (JObject [(''autoSyncOnSave'', JString ''yes'')])
      else None)"

definition workspace_env :: "string option \<Rightarrow> bool option \<Rightarrow> env" where
  "workspace_env content setting =
     (linux_env None)\<lparr>
        config_bool := (\<lambda>key. if key = ''microPythonWorkBench.autoSyncOnSave'' then setting else None),
        JSON_parse := small_parser,
        existsSync := (\<lambda>file. file = ''/ws/.mpy-workbench/config.json'' \<and> content \<noteq> None),
        readFileSync := (\<lambda>file.
           if file = ''/ws/.mpy-workbench/config.json''
           then (case content of None \<Rightarrow> Throws ''ENOENT'' | Some text \<Rightarrow> Returns text)
           else Throws ''ENOENT'')\<rparr>"

text \<open>The same with no workspace folder open, and with a record that cannot be read.\<close>

definition no_folder_env :: "bool option \<Rightarrow> env" where
  "no_folder_env setting = (workspace_env None setting)\<lparr>workspaceFolder := None\<rparr>"

definition unreadable_env :: "bool option \<Rightarrow> env" where
  "unreadable_env setting =
     (workspace_env (Some ''{}'') setting)\<lparr>readFileSync := (\<lambda>file. Throws ''EACCES'')\<rparr>"

text \<open>
  Two operations nested: the inner \<^verbatim>\<open>suspendDuring\<close> settles while the outer operation
  is still pending.
\<close>

definition inner_operation :: "world \<Rightarrow> (string + unit) \<times> world" where
  "inner_operation w = suspendDuring quiet_operation w"

text \<open>
  The interpreters getPythonPath may validate, in its order: the Python extension's, the
  configured one, the platform fallbacks.
\<close>

definition candidates :: "env \<Rightarrow> string option \<Rightarrow> string list" where
  "candidates e folder =
     (case getPythonFromExtensionAPI e folder of None \<Rightarrow> [] | Some p \<Rightarrow> [p])
     @ (case getPythonFromConfiguration e folder of None \<Rightarrow> [] | Some p \<Rightarrow> [p])
     @ getFallbackPythonPaths e"

text \<open>
  The monitor is started and its first handle fires: the cycle passes the guard and waits
  for the interpreter lookup. An operation that begins now overlaps the rest of the cycle.
\<close>

definition cycle_in_flight :: "string list option \<times> world" where
  "cycle_in_flight = fire (linux_env (Some ''/dev/ttyUSB0'')) 0 (start (initial_world 0))"

definition overlapping_operation :: "world \<Rightarrow> (string + unit) \<times> world" where
  "overlapping_operation w =
     (case fst cycle_in_flight of
        Some args \<Rightarrow> (Inr (), tick_spawn (linux_env (Some ''/dev/ttyUSB0'')) args w)
      | None \<Rightarrow> (Inr (), w))"

section \<open>Facts about the timer bookkeeping\<close>

lemma removeAll_only:
  "set xs \<subseteq> {x} \<Longrightarrow> removeAll x xs = []"
  by (induction xs) auto

lemma schedule_frame:
  "running (mon (schedule w)) = running (mon w)"
  "busy (mon (schedule w)) = busy (mon w)"
  "out (mon (schedule w)) = out (mon w)"
  "procs (schedule w) = procs w"
  "pim (schedule w) = pim w"
  "warnings (schedule w) = warnings w"
  "clock (schedule w) = clock w"
  by (simp_all add: schedule_def clearTimeout_def Let_def split: option.splits)

lemma schedule_skips:
  "\<not> running (mon w) \<or> busy (mon w) \<Longrightarrow> schedule w = w"
  by (simp add: schedule_def)

lemma schedule_arms:
  assumes "running (mon w)" "\<not> busy (mon w)"
  shows "timer (mon (schedule w)) = Some (next_handle w)"
    and "next_handle (schedule w) = Suc (next_handle w)"
    and "timeouts (schedule w) =
           (case timer (mon w) of None \<Rightarrow> timeouts w | Some h \<Rightarrow> removeAll h (timeouts w)) @ [next_handle w]"
    and "polling_armed (schedule w)"
  using assms
  by (simp_all add: schedule_def clearTimeout_def Let_def polling_armed_def split: option.splits)

lemma schedule_inv:
  "timers_inv w \<Longrightarrow> timers_inv (schedule w)"
  by (auto simp add: schedule_def clearTimeout_def Let_def timers_inv_def split: option.splits)

lemma schedule_single:
  assumes "timers_inv w" "running (mon w)" "\<not> busy (mon w)"
  shows "timeouts (schedule w) = [next_handle w]"
proof -
  have "(case timer (mon w) of None \<Rightarrow> timeouts w | Some h \<Rightarrow> removeAll h (timeouts w)) = []"
    using assms(1) by (auto simp add: timers_inv_def removeAll_only split: option.splits)
  then show ?thesis using schedule_arms(3)[OF assms(2,3)] by simp
qed

section \<open>start and stop\<close>

text \<open>
  C10. \<^verbatim>\<open>start\<close> is idempotent: on a running monitor it changes nothing at all (no handle
  is armed, no field is written), and a second \<^verbatim>\<open>start\<close> right after the first is
  absorbed. After \<^verbatim>\<open>stop\<close> the monitor reports not running, its \<^verbatim>\<open>timer\<close> field is
  undefined and the handle it held is no longer armed; when at most the monitor's own handle
  was armed, nothing is armed afterwards.
\<close>

theorem start_idempotent_stop_clears:
  "(running (mon w) \<longrightarrow> start w = w)
   \<and> start (start w) = start w
   \<and> \<not> isRunning (stop w)
   \<and> timer (mon (stop w)) = None
   \<and> (\<forall>h. timer (mon w) = Some h \<longrightarrow> h \<notin> set (timeouts (stop w)))
   \<and> (timers_inv w \<longrightarrow> timeouts (stop w) = [])"
proof -
  have r: "running (mon (start w))"
    by (simp add: start_def Let_def schedule_frame)
  have a: "running (mon w) \<longrightarrow> start w = w" by (simp add: start_def)
  have b: "start (start w) = start w" using r by (simp add: start_def[of "start w"])
  have c: "\<not> isRunning (stop w)"
    by (simp add: isRunning_def stop_def clearTimeout_def Let_def split: option.splits)
  have d: "timer (mon (stop w)) = None"
    by (simp add: stop_def clearTimeout_def Let_def split: option.splits)
  have e: "\<forall>h. timer (mon w) = Some h \<longrightarrow> h \<notin> set (timeouts (stop w))"
    by (simp add: stop_def clearTimeout_def Let_def split: option.splits)
  have f: "timers_inv w \<longrightarrow> timeouts (stop w) = []"
    by (auto simp add: timers_inv_def stop_def clearTimeout_def Let_def removeAll_only
        split: option.splits)
  from a b c d e f show ?thesis by blast
qed

theorem start_idempotent_stop_clears_witness:
  "running (mon (start (initial_world 0)))
   \<and> timer (mon (start (initial_world 0))) = Some 0
   \<and> timeouts (start (initial_world 0)) = [0]
   \<and> timers_inv (start (initial_world 0))
   \<and> start (start (initial_world 0)) = start (initial_world 0)
   \<and> \<not> isRunning (stop (start (initial_world 0)))
   \<and> timer (mon (stop (start (initial_world 0)))) = None
   \<and> 0 \<notin> set (timeouts (stop (start (initial_world 0))))
   \<and> timeouts (stop (start (initial_world 0))) = []"
proof -
  have s: "running (mon (start (initial_world 0)))"
    "timer (mon (start (initial_world 0))) = Some 0"
    "timeouts (start (initial_world 0)) = [0]"
    by (simp_all add: start_def schedule_def initial_world_def Let_def)
  then have i: "timers_inv (start (initial_world 0))"
    by (simp add: timers_inv_def)
  show ?thesis
    using start_idempotent_stop_clears [of "start (initial_world 0)"] s i by simp
qed


section \<open>suspendDuring\<close>

lemma acquire_frame:
  "busy (mon (acquire w))"
  "running (mon (acquire w)) = running (mon w)"
  "timer (mon (acquire w)) = timer (mon w)"
  "timeouts (acquire w) = timeouts w"
  "procs (acquire w) = procs w"
  "next_handle (acquire w) = next_handle w"
  "pim (acquire w) = pim w"
  by (simp_all add: acquire_def)

lemma release_frame:
  "\<not> busy (mon (release b w))"
  "running (mon (release b w)) = running (mon w)"
  "procs (release b w) = procs w"
  "pim (release b w) = pim w"
  by (simp_all add: release_def Let_def schedule_frame)

lemma release_rearms:
  assumes "b" "running (mon w)"
  shows "polling_armed (release b w)"
    and "timer (mon (release b w)) = Some (next_handle w)"
    and "next_handle (release b w) = Suc (next_handle w)"
  using assms by (simp_all add: release_def Let_def schedule_arms)

lemma release_idle_eq:
  assumes "\<not> (b \<and> running (mon w))"
  shows "release b w = w\<lparr>mon := (mon w)\<lparr>busy := False\<rparr>\<rparr>"
  using assms by (auto simp add: release_def Let_def schedule_def)

lemma release_idle:
  assumes "\<not> (b \<and> running (mon w))"
  shows "timeouts (release b w) = timeouts w"
    and "timer (mon (release b w)) = timer (mon w)"
    and "next_handle (release b w) = next_handle w"
    and "polling_armed (release b w) = polling_armed w"
  by (simp_all add: release_idle_eq[OF assms] polling_armed_def split: option.splits)

lemma release_single:
  assumes "b" "running (mon w)" "timers_inv w"
  shows "timeouts (release b w) = [next_handle w]"
proof -
  let ?v = "w\<lparr>mon := (mon w)\<lparr>busy := False\<rparr>\<rparr>"
  have "timers_inv ?v" using assms(3) by (simp add: timers_inv_def)
  moreover have "running (mon ?v)" "\<not> busy (mon ?v)" using assms(2) by simp_all
  ultimately have "timeouts (schedule ?v) = [next_handle ?v]" by (rule schedule_single)
  then show ?thesis using assms(1) by (simp add: release_def Let_def)
qed

lemma suspendDuring_unfold:
  "suspendDuring fn w = (fst (fn (acquire w)), release (running (mon w)) (snd (fn (acquire w))))"
  by (simp add: suspendDuring_def Let_def split: prod.splits)

text \<open>
  C4, as the code has it. Whatever the wrapped operation does and whether it resolves or
  throws, \<^verbatim>\<open>suspendDuring\<close> passes its outcome on, leaves \<^verbatim>\<open>busy\<close> false and never
  writes \<^verbatim>\<open>running\<close>. Its \<^verbatim>\<open>finally\<close> block arms a new poll handle if and only if the
  monitor was running when the suspension began and is still running when the operation
  settles (the guard of \<^verbatim>\<open>schedule\<close>). So for an operation that neither starts nor stops
  the monitor, and that does not arm polling of a stopped monitor, polling is armed
  afterwards if and only if the monitor was running before; a stopped monitor stays stopped.
\<close>

theorem suspendDuring_resume:
  "fst (suspendDuring fn w) = fst (fn (acquire w))
   \<and> \<not> busy (mon (snd (suspendDuring fn w)))
   \<and> running (mon (snd (suspendDuring fn w))) = running (mon (snd (fn (acquire w))))
   \<and> (next_handle (snd (suspendDuring fn w)) \<noteq> next_handle (snd (fn (acquire w))))
       = (running (mon w) \<and> running (mon (snd (fn (acquire w)))))
   \<and> polling_armed (snd (suspendDuring fn w))
       = (running (mon w) \<and> running (mon (snd (fn (acquire w)))) \<or> polling_armed (snd (fn (acquire w))))
   \<and> (running (mon (snd (fn (acquire w)))) = running (mon w)
        \<and> (\<not> running (mon w) \<longrightarrow> \<not> polling_armed (snd (fn (acquire w))))
       \<longrightarrow> (polling_armed (snd (suspendDuring fn w)) \<longleftrightarrow> running (mon w)))"
proof -
  let ?w1 = "snd (fn (acquire w))"
  let ?w' = "snd (suspendDuring fn w)"
  have w': "?w' = release (running (mon w)) ?w1" by (simp add: suspendDuring_unfold)
  have a: "fst (suspendDuring fn w) = fst (fn (acquire w))" by (simp add: suspendDuring_unfold)
  have b: "\<not> busy (mon ?w')" "running (mon ?w') = running (mon ?w1)"
    by (simp_all add: w' release_frame)
  have c: "(next_handle ?w' \<noteq> next_handle ?w1) = (running (mon w) \<and> running (mon ?w1))"
  proof (cases "running (mon w) \<and> running (mon ?w1)")
    case True
    then show ?thesis using release_rearms(3)[of "running (mon w)" ?w1] by (simp add: w')
  next
    case False
    then show ?thesis using release_idle(3)[of "running (mon w)" ?w1] by (simp add: w')
  qed
  have d: "polling_armed ?w' = (running (mon w) \<and> running (mon ?w1) \<or> polling_armed ?w1)"
  proof (cases "running (mon w) \<and> running (mon ?w1)")
    case True
    then show ?thesis using release_rearms(1)[of "running (mon w)" ?w1] by (simp add: w')
  next
    case False
    then show ?thesis using release_idle(4)[of "running (mon w)" ?w1] by (auto simp add: w')
  qed
  from a b c d show ?thesis by blast
qed

theorem suspendDuring_resume_witness:
  "running (mon (snd (quiet_operation (acquire (start (initial_world 0))))))
     = running (mon (start (initial_world 0)))
   \<and> running (mon (start (initial_world 0)))
   \<and> polling_armed (snd (suspendDuring quiet_operation (start (initial_world 0))))
   \<and> \<not> running (mon (initial_world 0))
   \<and> \<not> polling_armed (snd (quiet_operation (acquire (initial_world 0))))
   \<and> \<not> polling_armed (snd (suspendDuring quiet_operation (initial_world 0)))"
proof -
  have a: "running (mon (start (initial_world 0)))"
    by (simp add: start_def schedule_def initial_world_def Let_def)
  have b: "snd (quiet_operation (acquire v)) = acquire v" for v
    by (simp add: quiet_operation_def)
  have c: "\<not> running (mon (initial_world 0))"
    "\<not> polling_armed (acquire (initial_world 0))"
    by (simp_all add: initial_world_def polling_armed_def acquire_def)
  show ?thesis
    using suspendDuring_resume [of quiet_operation "start (initial_world 0)"]
      suspendDuring_resume [of quiet_operation "initial_world 0"] a b c
    by (simp add: acquire_frame)
qed

text \<open>
  C4 as stated fails when the monitor is stopped while the operation runs: it was running
  before the suspension, the operation completes, and polling is not resumed.
\<close>

theorem stop_during_operation_counterexample:
  "running (mon (start (initial_world 0)))
   \<and> fst (suspendDuring stopped_meanwhile (start (initial_world 0))) = Inr ()
   \<and> \<not> polling_armed (snd (suspendDuring stopped_meanwhile (start (initial_world 0))))"
  by (simp add: suspendDuring_def stopped_meanwhile_def acquire_def release_def stop_def
      start_def schedule_def clearTimeout_def initial_world_def polling_armed_def Let_def)

text \<open>
  C9, as the code has it. When the wrapped operation throws, the error is passed on, the
  \<^verbatim>\<open>busy\<close> flag is reset to false, and a poll handle is armed (exactly one, when at most
  the monitor's own handle was armed) provided the monitor was running before and has not
  been stopped meanwhile. When it was not running before, only \<^verbatim>\<open>busy\<close> is written.
\<close>

theorem suspendDuring_failure_releases:
  assumes "fst (fn (acquire w)) = Inl err"
  shows "fst (suspendDuring fn w) = Inl err
   \<and> \<not> busy (mon (snd (suspendDuring fn w)))
   \<and> (running (mon w) \<and> running (mon (snd (fn (acquire w))))
        \<longrightarrow> polling_armed (snd (suspendDuring fn w))
            \<and> timer (mon (snd (suspendDuring fn w))) = Some (next_handle (snd (fn (acquire w)))))
   \<and> (running (mon w) \<and> running (mon (snd (fn (acquire w)))) \<and> timers_inv (snd (fn (acquire w)))
        \<longrightarrow> timeouts (snd (suspendDuring fn w)) = [next_handle (snd (fn (acquire w)))])
   \<and> (\<not> running (mon w)
        \<longrightarrow> snd (suspendDuring fn w)
            = (snd (fn (acquire w)))\<lparr>mon := (mon (snd (fn (acquire w))))\<lparr>busy := False\<rparr>\<rparr>)"
proof -
  let ?w1 = "snd (fn (acquire w))"
  have w': "snd (suspendDuring fn w) = release (running (mon w)) ?w1"
    by (simp add: suspendDuring_unfold)
  have a: "fst (suspendDuring fn w) = Inl err"
    using assms by (simp add: suspendDuring_unfold)
  have b: "\<not> busy (mon (snd (suspendDuring fn w)))"
    by (simp add: w' release_frame)
  have c: "running (mon w) \<and> running (mon ?w1)
        \<longrightarrow> polling_armed (snd (suspendDuring fn w))
            \<and> timer (mon (snd (suspendDuring fn w))) = Some (next_handle ?w1)"
    using release_rearms(1,2)[of "running (mon w)" ?w1] by (simp add: w')
  have d: "running (mon w) \<and> running (mon ?w1) \<and> timers_inv ?w1
        \<longrightarrow> timeouts (snd (suspendDuring fn w)) = [next_handle ?w1]"
    using release_single[of "running (mon w)" ?w1] by (simp add: w')
  have e: "\<not> running (mon w)
        \<longrightarrow> snd (suspendDuring fn w) = ?w1\<lparr>mon := (mon ?w1)\<lparr>busy := False\<rparr>\<rparr>"
    by (simp add: w' release_def)
  from a b c d e show ?thesis by blast
qed

theorem suspendDuring_failure_releases_witness:
  "fst (failing_operation (acquire (start (initial_world 0)))) = Inl ''write failed''
   \<and> running (mon (start (initial_world 0)))
   \<and> running (mon (snd (failing_operation (acquire (start (initial_world 0))))))
   \<and> timers_inv (snd (failing_operation (acquire (start (initial_world 0)))))
   \<and> fst (suspendDuring failing_operation (start (initial_world 0))) = Inl ''write failed''
   \<and> \<not> busy (mon (snd (suspendDuring failing_operation (start (initial_world 0)))))
   \<and> polling_armed (snd (suspendDuring failing_operation (start (initial_world 0))))
   \<and> timeouts (snd (suspendDuring failing_operation (start (initial_world 0)))) = [1]"
proof -
  have s: "start (initial_world 0) =
     (initial_world 0)\<lparr>mon := \<lparr>timer = Some 0, busy = False, running = True, out = Some []\<rparr>,
        timeouts := [0], next_handle := 1\<rparr>"
    by (simp add: start_def schedule_def initial_world_def Let_def)
  have f: "fst (failing_operation v) = Inl ''write failed''" "snd (failing_operation v) = v" for v
    by (simp_all add: failing_operation_def)
  have h: "running (mon (start (initial_world 0)))"
    "timers_inv (acquire (start (initial_world 0)))"
    "next_handle (acquire (start (initial_world 0))) = 1"
    by (simp_all add: s acquire_def timers_inv_def)
  show ?thesis
    using suspendDuring_failure_releases [of failing_operation "start (initial_world 0)" "''write failed''"]
      f h by (simp add: acquire_frame)
qed

text \<open>
  C9 as stated fails when the failing operation overlaps a \<^verbatim>\<open>stop\<close>: the monitor was
  running before, the flag is reset, but polling is not rescheduled.
\<close>

theorem failed_and_stopped_counterexample:
  "running (mon (start (initial_world 0)))
   \<and> fst (suspendDuring failed_and_stopped (start (initial_world 0))) = Inl ''write failed''
   \<and> \<not> busy (mon (snd (suspendDuring failed_and_stopped (start (initial_world 0)))))
   \<and> \<not> polling_armed (snd (suspendDuring failed_and_stopped (start (initial_world 0))))"
  by (simp add: suspendDuring_def failed_and_stopped_def acquire_def release_def stop_def
      start_def schedule_def clearTimeout_def initial_world_def polling_armed_def Let_def)

section \<open>Poll ticks while an operation holds the link\<close>

lemma tick_enter_busy: "busy (mon w) \<Longrightarrow> tick_enter e w = None"
  by (simp add: tick_enter_def)

lemma tick_busy: "busy (mon w) \<Longrightarrow> tick e buf err w = w"
  by (simp add: tick_def tick_enter_busy)

lemma fire_busy:
  assumes "busy (mon w)"
  shows "fst (fire e h w) = None"
    and "mon (snd (fire e h w)) = mon w"
    and "procs (snd (fire e h w)) = procs w"
    and "pim (snd (fire e h w)) = pim w"
    and "next_handle (snd (fire e h w)) = next_handle w"
    and "length (timeouts (snd (fire e h w))) \<le> length (timeouts w)"
    and "set (timeouts (snd (fire e h w))) \<subseteq> set (timeouts w)"
  using assms by (auto simp add: fire_def Let_def tick_enter_def)

lemma fire_all_busy:
  "busy (mon w) \<Longrightarrow>
     fst (fire_all e hs w) = replicate (length hs) None
     \<and> mon (snd (fire_all e hs w)) = mon w
     \<and> procs (snd (fire_all e hs w)) = procs w
     \<and> pim (snd (fire_all e hs w)) = pim w
     \<and> next_handle (snd (fire_all e hs w)) = next_handle w
     \<and> length (timeouts (snd (fire_all e hs w))) \<le> length (timeouts w)
     \<and> set (timeouts (snd (fire_all e hs w))) \<subseteq> set (timeouts w)"
proof (induction hs arbitrary: w)
  case Nil
  then show ?case by simp
next
  case (Cons h hs)
  let ?w1 = "snd (fire e h w)"
  have b1: "busy (mon ?w1)" using Cons.prems by (simp add: fire_busy(2))
  note ih = Cons.IH[OF b1]
  note f = fire_busy[OF Cons.prems, of e h]
  have unf: "fire_all e (h # hs) w =
     (fst (fire e h w) # fst (fire_all e hs ?w1), snd (fire_all e hs ?w1))"
    by (simp split: prod.splits)
  show ?case
    unfolding unf using ih f by (auto simp del: fire_all.simps)
qed

lemma fire_all_inv:
  "busy (mon w) \<Longrightarrow> timers_inv w \<Longrightarrow> timers_inv (snd (fire_all e hs w))"
  using fire_all_busy[of w e hs] by (auto simp add: timers_inv_def)

text \<open>
  What the guard at the head of \<^verbatim>\<open>tick\<close> ensures. A poll tick that fires while
  \<^verbatim>\<open>busy\<close> is set returns at once: no reader is spawned, no handle is armed (the fired
  handle is simply gone, so no backlog builds up) and a whole \<^verbatim>\<open>tick\<close> leaves the world
  as it was. For an operation under \<^verbatim>\<open>suspendDuring\<close> during which any handles fire,
  every such tick returns at the guard and launches nothing; the release re-arms polling
  when the monitor is running, with exactly one handle when at most the monitor's own
  handle was armed before.
\<close>

lemma polls_skipped_while_busy:
  "(busy (mon v) \<longrightarrow>
      tick_enter e v = None \<and> tick e buf err v = v
      \<and> fst (fire e h v) = None
      \<and> procs (snd (fire e h v)) = procs v
      \<and> next_handle (snd (fire e h v)) = next_handle v
      \<and> length (timeouts (snd (fire e h v))) \<le> length (timeouts v))
   \<and> fst (fire_all e hs (acquire w)) = replicate (length hs) None
   \<and> procs (snd (fire_all e hs (acquire w))) = procs w
   \<and> next_handle (snd (fire_all e hs (acquire w))) = next_handle w
   \<and> length (timeouts (snd (fire_all e hs (acquire w)))) \<le> length (timeouts w)
   \<and> procs (snd (suspendDuring (polls_during e hs r) w)) = procs w
   \<and> (running (mon w) \<longrightarrow> polling_armed (snd (suspendDuring (polls_during e hs r) w)))
   \<and> (running (mon w) \<and> timers_inv w
        \<longrightarrow> timeouts (snd (suspendDuring (polls_during e hs r) w)) = [next_handle w])"
proof -
  let ?d = "snd (fire_all e hs (acquire w))"
  have busy: "busy (mon (acquire w))" by (simp add: acquire_frame)
  note d = fire_all_busy[OF busy, of e hs]
  have md: "running (mon ?d) = running (mon w)" using d by (simp add: acquire_frame)
  have w': "snd (suspendDuring (polls_during e hs r) w) = release (running (mon w)) ?d"
    by (simp add: suspendDuring_unfold polls_during_def)
  have a: "busy (mon v) \<longrightarrow>
      tick_enter e v = None \<and> tick e buf err v = v
      \<and> fst (fire e h v) = None
      \<and> procs (snd (fire e h v)) = procs v
      \<and> next_handle (snd (fire e h v)) = next_handle v
      \<and> length (timeouts (snd (fire e h v))) \<le> length (timeouts v)"
    by (simp add: tick_enter_busy tick_busy fire_busy)
  have b: "fst (fire_all e hs (acquire w)) = replicate (length hs) None"
    "procs ?d = procs w" "next_handle ?d = next_handle w"
    "length (timeouts ?d) \<le> length (timeouts w)"
    using d by (simp_all add: acquire_frame)
  have c: "procs (snd (suspendDuring (polls_during e hs r) w)) = procs w"
    by (simp add: w' release_frame b)
  have e: "running (mon w) \<longrightarrow> polling_armed (snd (suspendDuring (polls_during e hs r) w))"
    using release_rearms(1)[of "running (mon w)" ?d] md by (simp add: w')
  have f: "running (mon w) \<and> timers_inv w
        \<longrightarrow> timeouts (snd (suspendDuring (polls_during e hs r) w)) = [next_handle w]"
  proof
    assume h: "running (mon w) \<and> timers_inv w"
    then have "timers_inv (acquire w)" by (simp add: timers_inv_def acquire_frame)
    then have "timers_inv ?d" using busy by (rule fire_all_inv[rotated])
    then have "timeouts (release (running (mon w)) ?d) = [next_handle ?d]"
      using h md by (intro release_single) simp_all
    then show "timeouts (snd (suspendDuring (polls_during e hs r) w)) = [next_handle w]"
      by (simp add: w' b)
  qed
  from a b c e f show ?thesis by blast
qed

lemma polls_skipped_while_busy_example:
  "busy (mon (acquire (start (initial_world 0))))
   \<and> tick (linux_env (Some ''/dev/ttyUSB0'')) ''>>> '' [] (acquire (start (initial_world 0)))
       = acquire (start (initial_world 0))
   \<and> fst (fire (linux_env (Some ''/dev/ttyUSB0'')) 0 (acquire (start (initial_world 0)))) = None
   \<and> running (mon (start (initial_world 0)))
   \<and> timers_inv (start (initial_world 0))
   \<and> fst (fire_all (linux_env (Some ''/dev/ttyUSB0'')) [0, 0] (acquire (start (initial_world 0))))
       = [None, None]
   \<and> procs (snd (suspendDuring (polls_during (linux_env (Some ''/dev/ttyUSB0'')) [0, 0]
                (Inr () :: string + unit)) (start (initial_world 0)))) = []
   \<and> polling_armed (snd (suspendDuring (polls_during (linux_env (Some ''/dev/ttyUSB0'')) [0, 0]
                (Inr () :: string + unit)) (start (initial_world 0))))
   \<and> timeouts (snd (suspendDuring (polls_during (linux_env (Some ''/dev/ttyUSB0'')) [0, 0]
                (Inr () :: string + unit)) (start (initial_world 0)))) = [1]"
proof -
  have s: "running (mon (start (initial_world 0)))"
    "timer (mon (start (initial_world 0))) = Some 0"
    "timeouts (start (initial_world 0)) = [0]"
    "next_handle (start (initial_world 0)) = 1"
    "procs (start (initial_world 0)) = []"
    by (simp_all add: start_def schedule_def initial_world_def Let_def)
  then have i: "timers_inv (start (initial_world 0))"
    by (simp add: timers_inv_def)
  have b: "busy (mon (acquire (start (initial_world 0))))"
    by (simp add: acquire_frame)
  show ?thesis
    using polls_skipped_while_busy [of "acquire (start (initial_world 0))"
        "linux_env (Some ''/dev/ttyUSB0'')" "''>>> ''" "[]" 0 "[0, 0]" "start (initial_world 0)"
        "Inr () :: string + unit"] s i b
    by simp
qed

lemma linux_validate:
  "validatePythonPath (linux_env port) p v =
     (\<lparr>valid = True, missingMpremote = False, error = None\<rparr>,
      v\<lparr>procs := procs v @
           [\<lparr>program = p, arguments = [''-c'', ''import sys; print(sys.version)''], timeout_ms = Some 5000\<rparr>,
            \<lparr>program = ''mpremote'', arguments = [''--version''], timeout_ms = Some 5000\<rparr>],
        clock := clock v + 20\<rparr>)"
  by (simp add: validatePythonPath_def run_execFile_def linux_env_def)

lemma linux_getPythonPath:
  assumes "cache_hit v = None"
  shows "getPythonPath (linux_env port) None v =
     (''python3'',
      cacheResult ''python3''
        (v\<lparr>procs := procs v @
           [\<lparr>program = ''python3'', arguments = [''-c'', ''import sys; print(sys.version)''], timeout_ms = Some 5000\<rparr>,
            \<lparr>program = ''mpremote'', arguments = [''--version''], timeout_ms = Some 5000\<rparr>],
        clock := clock v + 20\<rparr>))"
proof -
  have a: "getPythonFromExtensionAPI (linux_env port) None = None"
    by (simp add: getPythonFromExtensionAPI_def linux_env_def)
  have b: "getPythonFromConfiguration (linux_env port) None = None"
    by (simp add: getPythonFromConfiguration_def linux_env_def)
  have c: "getFallbackPythonPaths (linux_env port) =
      [''python3'', ''python'', ''/usr/bin/python3'', ''/usr/local/bin/python3'',
       ''/opt/homebrew/bin/python3'', ''/usr/bin/python'', ''/usr/local/bin/python'']"
    by (simp add: getFallbackPythonPaths_def linux_env_def)
  show ?thesis
    by (simp add: getPythonPath_def assms a b c try_candidate_def linux_validate)
qed

lemma cycle_in_flight_eq:
  "cycle_in_flight =
     (Some [''-m'', ''serial.tools.miniterm'', ''/dev/ttyUSB0'', ''115200'', ''--eol'', ''LF''],
      (initial_world 0)\<lparr>mon := \<lparr>timer = Some 0, busy = False, running = True, out = Some []\<rparr>,
         next_handle := 1\<rparr>)"
  by (simp add: cycle_in_flight_def fire_def start_def schedule_def initial_world_def
      tick_enter_def linux_env_def device_of_def replace_prefix_def startsWith_def Let_def)

text \<open>
  C1. The guard is looked at only when the tick begins. \<^verbatim>\<open>tick\<close> then awaits
  \<^verbatim>\<open>getPythonPath()\<close> and spawns its reader without looking at \<^verbatim>\<open>busy\<close> again,
  although it does look again before rescheduling at its end. So a cycle that is past the
  guard when an operation begins polls the link while the operation holds it: the monitor
  is started, its handle fires on the idle monitor and the cycle waits for the interpreter
  lookup; \<^verbatim>\<open>suspendDuring\<close> sets \<^verbatim>\<open>busy\<close>; the lookup settles and the cycle spawns
  the reader on the port, with \<^verbatim>\<open>busy\<close> set and the operation still pending.
\<close>

theorem cycle_in_flight_spawns_while_busy:
  "fst cycle_in_flight =
      Some [''-m'', ''serial.tools.miniterm'', ''/dev/ttyUSB0'', ''115200'', ''--eol'', ''LF'']
   \<and> procs (snd cycle_in_flight) = []
   \<and> busy (mon (acquire (snd cycle_in_flight)))
   \<and> busy (mon (snd (overlapping_operation (acquire (snd cycle_in_flight)))))
   \<and> last (procs (snd (overlapping_operation (acquire (snd cycle_in_flight))))) =
       \<lparr>program = ''python3'',
        arguments = [''-m'', ''serial.tools.miniterm'', ''/dev/ttyUSB0'', ''115200'', ''--eol'', ''LF''],
        timeout_ms = None\<rparr>
   \<and> last (procs (snd (suspendDuring overlapping_operation (snd cycle_in_flight)))) =
       \<lparr>program = ''python3'',
        arguments = [''-m'', ''serial.tools.miniterm'', ''/dev/ttyUSB0'', ''115200'', ''--eol'', ''LF''],
        timeout_ms = None\<rparr>"
proof -
  have ch: "cache_hit (acquire (snd cycle_in_flight)) = None"
    by (simp add: cycle_in_flight_eq acquire_def cache_hit_def initial_world_def)
  have op: "overlapping_operation (acquire (snd cycle_in_flight)) =
      (Inr (), tick_spawn (linux_env (Some ''/dev/ttyUSB0''))
         [''-m'', ''serial.tools.miniterm'', ''/dev/ttyUSB0'', ''115200'', ''--eol'', ''LF'']
         (acquire (snd cycle_in_flight)))"
    by (simp add: overlapping_operation_def cycle_in_flight_eq)
  have sp: "last (procs (tick_spawn e args v)) =
      \<lparr>program = fst (getPythonPath e None v), arguments = args, timeout_ms = None\<rparr>"
    "mon (tick_spawn e args v) = mon (snd (getPythonPath e None v))" for e args v
    by (simp_all add: tick_spawn_def split: prod.splits)
  have g: "fst (getPythonPath (linux_env (Some ''/dev/ttyUSB0'')) None (acquire (snd cycle_in_flight))) = ''python3''"
    "mon (snd (getPythonPath (linux_env (Some ''/dev/ttyUSB0'')) None (acquire (snd cycle_in_flight))))
       = mon (acquire (snd cycle_in_flight))"
    by (simp_all add: linux_getPythonPath[OF ch] cacheResult_def)
  show ?thesis
    by (simp add: op sp g suspendDuring_unfold release_frame acquire_frame)
      (simp add: cycle_in_flight_eq initial_world_def)
qed


text \<open>
  The flag is a boolean, not a count: when an operation under \<^verbatim>\<open>suspendDuring\<close> settles
  inside another one, its \<^verbatim>\<open>finally\<close> block clears \<^verbatim>\<open>busy\<close> and arms a poll although
  the outer operation is still pending.
\<close>

lemma inner_release_clears_busy:
  "busy (mon (acquire (start (initial_world 0))))
   \<and> \<not> busy (mon (snd (inner_operation (acquire (start (initial_world 0))))))
   \<and> polling_armed (snd (inner_operation (acquire (start (initial_world 0)))))"
  by (simp add: inner_operation_def suspendDuring_def quiet_operation_def acquire_def release_def
      start_def schedule_def clearTimeout_def initial_world_def polling_armed_def Let_def)

section \<open>getPythonPath\<close>

lemma cache_hit_nonempty: "cache_hit w = Some c \<Longrightarrow> c \<noteq> []"
  by (auto simp add: cache_hit_def Let_def split: option.splits if_splits)

lemma try_candidate_unfold:
  "try_candidate e (Some p) v =
     (if p = [] then (None, v)
      else if valid (fst (validatePythonPath e p v))
        then (Some p, cacheResult p (snd (validatePythonPath e p v)))
      else if missingMpremote (fst (validatePythonPath e p v))
        then (None, showMpremoteInstallationNotification p (snd (validatePythonPath e p v)))
      else (None, snd (validatePythonPath e p v)))"
  "try_candidate e None v = (None, v)"
  by (simp_all add: try_candidate_def split: prod.splits)

lemma try_fallbacks_unfold:
  "try_fallbacks e (f # fs) v =
     (if valid (fst (validatePythonPath e f v))
        then (Some f, cacheResult f (snd (validatePythonPath e f v)))
      else if missingMpremote (fst (validatePythonPath e f v))
        then try_fallbacks e fs (showMpremoteInstallationNotification f (snd (validatePythonPath e f v)))
      else try_fallbacks e fs (snd (validatePythonPath e f v)))"
  by (simp split: prod.splits)

lemma try_candidate_Some:
  assumes "fst (try_candidate e cand v) = Some p"
  shows "cand = Some p" and "p \<noteq> []" and "valid (fst (validatePythonPath e p v))"
proof -
  obtain q where c: "cand = Some q"
    using assms by (cases cand) (simp_all add: try_candidate_unfold)
  have "q = p \<and> p \<noteq> [] \<and> valid (fst (validatePythonPath e p v))"
    using assms unfolding c by (simp add: try_candidate_unfold split: if_splits)
  then show "cand = Some p" and "p \<noteq> []" and "valid (fst (validatePythonPath e p v))"
    using c by simp_all
qed

lemma try_candidate_None:
  assumes "\<forall>p. cand = Some p \<longrightarrow> (\<forall>v. \<not> valid (fst (validatePythonPath e p v)))"
  shows "fst (try_candidate e cand v) = None"
  using assms
  by (cases cand) (auto simp add: try_candidate_unfold)

lemma try_fallbacks_Some:
  "fst (try_fallbacks e fs v) = Some p \<Longrightarrow> p \<in> set fs"
proof (induction fs arbitrary: v)
  case Nil
  then show ?case by simp
next
  case (Cons f fs)
  then show ?case
    by (auto simp add: try_fallbacks_unfold simp del: try_fallbacks.simps split: if_splits)
qed

lemma try_fallbacks_None:
  "(\<forall>p\<in>set fs. \<forall>v. \<not> valid (fst (validatePythonPath e p v))) \<Longrightarrow>
     fst (try_fallbacks e fs v) = None"
proof (induction fs arbitrary: v)
  case Nil
  then show ?case by simp
next
  case (Cons f fs)
  have nv: "\<not> valid (fst (validatePythonPath e f v))" using Cons.prems by simp
  have rest: "\<forall>p\<in>set fs. \<forall>v. \<not> valid (fst (validatePythonPath e p v))" using Cons.prems by simp
  show ?case
    using nv Cons.IH[OF rest] by (simp add: try_fallbacks_unfold del: try_fallbacks.simps)
qed

lemma fallbacks_nonempty:
  assumes "\<forall>segs. path_join e segs \<noteq> []"
  shows "\<forall>p\<in>set (getFallbackPythonPaths e). p \<noteq> []"
  using assms by (simp add: getFallbackPythonPaths_def Let_def)

lemma cacheResult_cached: "cachedInterpreter (pim (cacheResult p v)) = Some p"
  by (simp add: cacheResult_def)

lemma foldl_sep_nonempty:
  "s \<noteq> [] \<Longrightarrow> foldl (\<lambda>acc x. acc @ sep @ x) s ss \<noteq> []"
proof (induction ss arbitrary: s)
  case Nil
  then show ?case by simp
next
  case (Cons x xs)
  have "s @ sep @ x \<noteq> []" using Cons.prems by simp
  from Cons.IH[OF this] show ?case by simp
qed

lemma posix_join_nonempty: "posix_join segs \<noteq> []"
proof (cases "filter (\<lambda>s. s \<noteq> []) segs")
  case Nil
  then show ?thesis by (simp add: posix_join_def)
next
  case (Cons s ss)
  have "s \<in> set (filter (\<lambda>s. s \<noteq> []) segs)" using Cons by simp
  then have "s \<noteq> []" by simp
  then have "foldl (\<lambda>acc x. acc @ ''/'' @ x) s ss \<noteq> []" by (rule foldl_sep_nonempty)
  then show ?thesis using Cons by (simp add: posix_join_def)
qed

text \<open>
  C8. getPythonPath has no failing outcome: every \<^verbatim>\<open>try\<close> of the source catches what
  its body can throw (a failing activation or API call, a subprocess that cannot start,
  exits with an error or times out), so the function is total and always yields a string.
  Given that \<^verbatim>\<open>path.join\<close> never yields the empty string (Node returns \<^verbatim>\<open>'.'\<close> for an
  empty path), that string is never empty. When no fresh cache entry short-cuts the
  discovery and every candidate (the Python extension's interpreter, the configured one
  and each platform fallback) fails validation, the result is the literal \<^verbatim>\<open>python3\<close>,
  and it is cached with the current time.
\<close>

theorem getPythonPath_total:
  assumes "\<forall>segs. path_join e segs \<noteq> []"
  shows "fst (getPythonPath e folder w) \<noteq> []
    \<and> (cache_hit w = None
        \<and> (\<forall>p\<in>set (candidates e folder). \<forall>v. \<not> valid (fst (validatePythonPath e p v)))
       \<longrightarrow> fst (getPythonPath e folder w) = ''python3''
           \<and> cachedInterpreter (pim (snd (getPythonPath e folder w))) = Some ''python3''
           \<and> lastCacheTime (pim (snd (getPythonPath e folder w)))
               = clock (snd (getPythonPath e folder w)))"
proof -
  let ?c1 = "try_candidate e (getPythonFromExtensionAPI e folder) w"
  let ?c2 = "try_candidate e (getPythonFromConfiguration e folder) (snd ?c1)"
  let ?c3 = "try_fallbacks e (getFallbackPythonPaths e) (snd ?c2)"
  have unf: "getPythonPath e folder w =
     (case cache_hit w of
        Some c \<Rightarrow> (c, w)
      | None \<Rightarrow>
          (case fst ?c1 of
             Some p \<Rightarrow> (p, snd ?c1)
           | None \<Rightarrow>
               (case fst ?c2 of
                  Some p \<Rightarrow> (p, snd ?c2)
                | None \<Rightarrow>
                    (case fst ?c3 of
                       Some p \<Rightarrow> (p, snd ?c3)
                     | None \<Rightarrow> (''python3'', cacheResult ''python3'' (snd ?c3))))))"
    by (simp add: getPythonPath_def Let_def split: option.splits prod.splits)
  have nonempty: "fst (getPythonPath e folder w) \<noteq> []"
  proof (cases "cache_hit w")
    case (Some c)
    then show ?thesis using cache_hit_nonempty[OF Some] by (simp add: unf)
  next
    case None
    note miss = None
    show ?thesis
    proof (cases "fst ?c1")
      case (Some p)
      then show ?thesis using try_candidate_Some(2)[OF Some] miss by (simp add: unf)
    next
      case None
      note n1 = None
      show ?thesis
      proof (cases "fst ?c2")
        case (Some p)
        then show ?thesis using try_candidate_Some(2)[OF Some] miss n1 by (simp add: unf)
      next
        case None
        note n2 = None
        show ?thesis
        proof (cases "fst ?c3")
          case (Some p)
          then have "p \<noteq> []"
            using try_fallbacks_Some[OF Some] fallbacks_nonempty[OF assms] by blast
          then show ?thesis using Some miss n1 n2 by (simp add: unf)
        next
          case None
          then show ?thesis using miss n1 n2 by (simp add: unf)
        qed
      qed
    qed
  qed
  have last: "fst (getPythonPath e folder w) = ''python3''
           \<and> cachedInterpreter (pim (snd (getPythonPath e folder w))) = Some ''python3''
           \<and> lastCacheTime (pim (snd (getPythonPath e folder w)))
               = clock (snd (getPythonPath e folder w))"
    if miss: "cache_hit w = None"
      and fail: "\<forall>p\<in>set (candidates e folder). \<forall>v. \<not> valid (fst (validatePythonPath e p v))"
  proof -
    have f1: "fst ?c1 = None"
      using fail by (intro try_candidate_None) (auto simp add: candidates_def)
    have f2: "fst ?c2 = None"
      using fail by (intro try_candidate_None) (auto simp add: candidates_def)
    have f3: "fst ?c3 = None"
      using fail by (intro try_fallbacks_None) (auto simp add: candidates_def)
    show ?thesis by (simp add: unf miss f1 f2 f3 cacheResult_def)
  qed
  from nonempty last show ?thesis by blast
qed

lemma no_python_invalid:
  "\<not> valid (fst (validatePythonPath no_python_env p v))"
  by (simp add: validatePythonPath_def run_execFile_def no_python_env_def linux_env_def
      classify_error_def Let_def)

theorem getPythonPath_total_witness:
  "path_join no_python_env [[], ''Programs''] \<noteq> []
   \<and> cache_hit (initial_world 0) = None
   \<and> fst (getPythonPath no_python_env None (initial_world 0)) = ''python3''
   \<and> fst (getPythonPath no_python_env None (initial_world 0)) \<noteq> []
   \<and> cachedInterpreter (pim (snd (getPythonPath no_python_env None (initial_world 0)))) = Some ''python3''"
proof -
  have h1: "\<forall>segs. path_join no_python_env segs \<noteq> []"
    by (simp add: no_python_env_def linux_env_def posix_join_nonempty)
  have h2: "cache_hit (initial_world 0) = None"
    by (simp add: cache_hit_def initial_world_def)
  have h3: "\<forall>p\<in>set (candidates no_python_env None). \<forall>v.
      \<not> valid (fst (validatePythonPath no_python_env p v))"
    by (simp add: no_python_invalid)
  show ?thesis
    using getPythonPath_total [OF h1, of None "initial_world 0"] h1 h2 h3 by simp
qed


section \<open>listDirPyRaw\<close>

lemma run_execFile_facts:
  "fst (run_execFile e prog args tmo v) = fst (execFile e prog args tmo)"
  "procs (snd (run_execFile e prog args tmo v)) =
     procs v @ [\<lparr>program = prog, arguments = args, timeout_ms = Some tmo\<rparr>]"
  "mon (snd (run_execFile e prog args tmo v)) = mon v"
  "timeouts (snd (run_execFile e prog args tmo v)) = timeouts v"
  by (simp_all add: run_execFile_def split: prod.splits)

lemma listDirPyRaw_refused:
  assumes "config e None ''microPythonWorkBench.connect'' = None
     \<or> config e None ''microPythonWorkBench.connect'' = Some []
     \<or> config e None ''microPythonWorkBench.connect'' = Some ''auto''"
  shows "listDirPyRaw e dirPath w = (Inl (Error ''No fixed serial port selected''), w)"
  using assms by (auto simp add: listDirPyRaw_def Let_def)

lemma listDirPyRaw_runs:
  assumes "config e None ''microPythonWorkBench.connect'' = Some c" "c \<noteq> []" "c \<noteq> ''auto''"
    and "extensionPath e = Some ep"
  shows "listDirPyRaw e dirPath w =
     (case run_execFile e (fst (getPythonPath e None w))
             [path_join e [ep, ''scripts'', ''thonny_list_files.py''], ''--port'', device_of c,
              ''--baudrate'', ''115200'', ''--path'', dirPath] 10000 (snd (getPythonPath e None w)) of
        (Failed message stdout stderr, w2) \<Rightarrow>
          (Inl (Error (if stderr \<noteq> [] then stderr else message)), w2)
      | (Exited stdout stderr, w2) \<Rightarrow>
          (case JSON_parse e (if stdout \<noteq> [] then stdout else ''[]'') of
             Some (JArray data) \<Rightarrow> (Inr data, w2)
           | _ \<Rightarrow> (Inr [], w2)))"
  using assms by (simp add: listDirPyRaw_def Let_def split: prod.splits)

lemma listDirPyRaw_procs:
  assumes "config e None ''microPythonWorkBench.connect'' = Some c" "c \<noteq> []" "c \<noteq> ''auto''"
    and "extensionPath e = Some ep"
  shows "procs (snd (listDirPyRaw e dirPath w)) =
     procs (snd (getPythonPath e None w)) @
       [\<lparr>program = fst (getPythonPath e None w),
         arguments = [path_join e [ep, ''scripts'', ''thonny_list_files.py''], ''--port'', device_of c,
              ''--baudrate'', ''115200'', ''--path'', dirPath],
         timeout_ms = Some 10000\<rparr>]"
proof -
  let ?x = "run_execFile e (fst (getPythonPath e None w))
             [path_join e [ep, ''scripts'', ''thonny_list_files.py''], ''--port'', device_of c,
              ''--baudrate'', ''115200'', ''--path'', dirPath] 10000 (snd (getPythonPath e None w))"
  have "snd (listDirPyRaw e dirPath w) = snd ?x"
    unfolding listDirPyRaw_runs[OF assms]
    by (cases ?x) (simp split: exec_result.splits option.splits json.splits)
  then show ?thesis by (simp add: run_execFile_facts)
qed

lemma listDirPyRaw_result:
  assumes "config e None ''microPythonWorkBench.connect'' = Some c" "c \<noteq> []" "c \<noteq> ''auto''"
    and "extensionPath e = Some ep"
  shows "fst (listDirPyRaw e dirPath w) =
     (case fst (execFile e (fst (getPythonPath e None w))
             [path_join e [ep, ''scripts'', ''thonny_list_files.py''], ''--port'', device_of c,
              ''--baudrate'', ''115200'', ''--path'', dirPath] 10000) of
        Failed message stdout stderr \<Rightarrow> Inl (Error (if stderr \<noteq> [] then stderr else message))
      | Exited stdout stderr \<Rightarrow>
          (case JSON_parse e (if stdout \<noteq> [] then stdout else ''[]'') of
             Some (JArray data) \<Rightarrow> Inr data
           | _ \<Rightarrow> Inr []))"
proof -
  let ?x = "run_execFile e (fst (getPythonPath e None w))
             [path_join e [ep, ''scripts'', ''thonny_list_files.py''], ''--port'', device_of c,
              ''--baudrate'', ''115200'', ''--path'', dirPath] 10000 (snd (getPythonPath e None w))"
  have "fst ?x = fst (execFile e (fst (getPythonPath e None w))
             [path_join e [ep, ''scripts'', ''thonny_list_files.py''], ''--port'', device_of c,
              ''--baudrate'', ''115200'', ''--path'', dirPath] 10000)"
    by (simp add: run_execFile_facts)
  then show ?thesis
    unfolding listDirPyRaw_runs[OF assms]
    by (cases ?x) (simp split: exec_result.splits option.splits json.splits)
qed

lemma board_env_simps:
  "config (board_env port outcome) None ''microPythonWorkBench.connect'' = port"
  "extensionPath (board_env port outcome) = Some ''/ext''"
  "execFile (board_env port outcome) prog args tmo = (outcome, 10)"
  "JSON_parse (board_env port outcome) = only_empty_array"
  "path_join (board_env port outcome) = posix_join"
  by (simp_all add: board_env_def linux_env_def)

lemma linux_env_simps:
  "config (linux_env port) None ''microPythonWorkBench.connect'' = port"
  "extensionPath (linux_env port) = Some ''/ext''"
  "execFile (linux_env port) prog args tmo = (Exited [] [], 10)"
  "JSON_parse (linux_env port) = only_empty_array"
  "path_join (linux_env port) = posix_join"
  by (simp_all add: linux_env_def)

lemma posix_join_script:
  "posix_join [''/ext'', ''scripts'', ''thonny_list_files.py''] = ''/ext/scripts/thonny_list_files.py''"
  by (simp add: posix_join_def)

lemma tick_spawn_last:
  "last (procs (tick_spawn e args v)) =
      \<lparr>program = fst (getPythonPath e None v), arguments = args, timeout_ms = None\<rparr>"
  by (simp add: tick_spawn_def split: prod.splits)

text \<open>
  C3. When no fixed serial port is configured (the \<^verbatim>\<open>connect\<close> setting is missing, empty
  or \<^verbatim>\<open>auto\<close>), listDirPyRaw fails with the error \<^verbatim>\<open>No fixed serial port selected\<close>
  and leaves the world exactly as it was: no subprocess has been launched, the interpreter
  lookup (which would launch its own) has not begun, and the function has returned, so
  nothing is tried again.
\<close>

theorem listDirPyRaw_no_port:
  assumes "config e None ''microPythonWorkBench.connect'' = None
     \<or> config e None ''microPythonWorkBench.connect'' = Some []
     \<or> config e None ''microPythonWorkBench.connect'' = Some ''auto''"
  shows "listDirPyRaw e dirPath w = (Inl (Error ''No fixed serial port selected''), w)
     \<and> procs (snd (listDirPyRaw e dirPath w)) = procs w
     \<and> pim (snd (listDirPyRaw e dirPath w)) = pim w"
  using listDirPyRaw_refused[OF assms] by simp

theorem listDirPyRaw_no_port_witness:
  "listDirPyRaw (linux_env None) ''/'' (initial_world 0)
     = (Inl (Error ''No fixed serial port selected''), initial_world 0)
   \<and> listDirPyRaw (linux_env (Some [])) ''/'' (initial_world 0)
     = (Inl (Error ''No fixed serial port selected''), initial_world 0)
   \<and> listDirPyRaw (linux_env (Some ''auto'')) ''/lib'' (initial_world 0)
     = (Inl (Error ''No fixed serial port selected''), initial_world 0)
   \<and> procs (snd (listDirPyRaw (linux_env (Some ''auto'')) ''/lib'' (initial_world 0))) = []"
proof -
  have p: "procs (initial_world 0) = []" by (simp add: initial_world_def)
  show ?thesis
    using listDirPyRaw_no_port [of "linux_env None" "''/''" "initial_world 0"]
      listDirPyRaw_no_port [of "linux_env (Some [])" "''/''" "initial_world 0"]
      listDirPyRaw_no_port [of "linux_env (Some ''auto'')" "''/lib''" "initial_world 0"]
    by (simp add: linux_env_simps p)
qed

text \<open>
  C2. With a fixed port, once the listing subprocess has ended: a successful exit with
  empty standard output yields the empty list; standard output that does not parse, or
  parses to something that is not an array, yields the empty list too (an array is passed
  on); a subprocess error (non-zero exit, timeout, failure to start) rejects with an error
  whose message is the standard-error text, and the underlying error's message only when
  standard error is empty.
\<close>

theorem listDirPyRaw_outcomes:
  assumes "config e None ''microPythonWorkBench.connect'' = Some c" "c \<noteq> []" "c \<noteq> ''auto''"
    and "extensionPath e = Some ep"
    and "fst (execFile e (fst (getPythonPath e None w))
             [path_join e [ep, ''scripts'', ''thonny_list_files.py''], ''--port'', device_of c,
              ''--baudrate'', ''115200'', ''--path'', dirPath] 10000) = outcome"
  shows "(outcome = Exited [] stderr \<and> JSON_parse e ''[]'' = Some (JArray [])
          \<longrightarrow> fst (listDirPyRaw e dirPath w) = Inr [])
     \<and> (outcome = Exited stdout stderr \<and> stdout \<noteq> [] \<and> JSON_parse e stdout = None
          \<longrightarrow> fst (listDirPyRaw e dirPath w) = Inr [])
     \<and> (outcome = Exited stdout stderr \<and> stdout \<noteq> [] \<and> JSON_parse e stdout = Some j
          \<and> (\<forall>data. j \<noteq> JArray data)
          \<longrightarrow> fst (listDirPyRaw e dirPath w) = Inr [])
     \<and> (outcome = Exited stdout stderr \<and> stdout \<noteq> [] \<and> JSON_parse e stdout = Some (JArray data)
          \<longrightarrow> fst (listDirPyRaw e dirPath w) = Inr data)
     \<and> (outcome = Failed message stdout stderr \<and> stderr \<noteq> []
          \<longrightarrow> fst (listDirPyRaw e dirPath w) = Inl (Error stderr))
     \<and> (outcome = Failed message stdout []
          \<longrightarrow> fst (listDirPyRaw e dirPath w) = Inl (Error message))"
proof -
  note r = listDirPyRaw_result[OF assms(1-4), of dirPath w, unfolded assms(5)]
  have a: "outcome = Exited [] stderr \<and> JSON_parse e ''[]'' = Some (JArray [])
          \<longrightarrow> fst (listDirPyRaw e dirPath w) = Inr []"
    by (simp add: r)
  have b: "outcome = Exited stdout stderr \<and> stdout \<noteq> [] \<and> JSON_parse e stdout = None
          \<longrightarrow> fst (listDirPyRaw e dirPath w) = Inr []"
    by (simp add: r)
  have c: "outcome = Exited stdout stderr \<and> stdout \<noteq> [] \<and> JSON_parse e stdout = Some j
          \<and> (\<forall>data. j \<noteq> JArray data)
          \<longrightarrow> fst (listDirPyRaw e dirPath w) = Inr []"
    by (cases j) (simp_all add: r)
  have d: "outcome = Exited stdout stderr \<and> stdout \<noteq> [] \<and> JSON_parse e stdout = Some (JArray data)
          \<longrightarrow> fst (listDirPyRaw e dirPath w) = Inr data"
    by (simp add: r)
  have f: "outcome = Failed message stdout stderr \<and> stderr \<noteq> []
          \<longrightarrow> fst (listDirPyRaw e dirPath w) = Inl (Error stderr)"
    "outcome = Failed message stdout [] \<longrightarrow> fst (listDirPyRaw e dirPath w) = Inl (Error message)"
    by (simp_all add: r)
  from a b c d f show ?thesis by blast
qed

theorem listDirPyRaw_outcomes_witness:
  "fst (listDirPyRaw (board_env (Some ''/dev/ttyUSB0'') (Exited [] [])) ''/'' (initial_world 0)) = Inr []
   \<and> fst (listDirPyRaw (board_env (Some ''/dev/ttyUSB0'') (Exited ''Traceback'' [])) ''/''
        (initial_world 0)) = Inr []
   \<and> fst (listDirPyRaw (board_env (Some ''/dev/ttyUSB0'')
        (Failed ''Command failed'' [] ''could not open port'')) ''/'' (initial_world 0))
       = Inl (Error ''could not open port'')
   \<and> fst (listDirPyRaw (board_env (Some ''/dev/ttyUSB0'') (Failed ''Command failed'' [] [])) ''/''
        (initial_world 0)) = Inl (Error ''Command failed'')"
proof -
  have p: "only_empty_array ''[]'' = Some (JArray [])" "only_empty_array ''Traceback'' = None"
    by (simp_all add: only_empty_array_def)
  show ?thesis
    using
      listDirPyRaw_outcomes [where e = "board_env (Some ''/dev/ttyUSB0'') (Exited [] [])"
        and c = "''/dev/ttyUSB0''" and ep = "''/ext''" and w = "initial_world 0" and dirPath = "''/''"
        and outcome = "Exited [] []" and stderr = "[]"]
      listDirPyRaw_outcomes [where e = "board_env (Some ''/dev/ttyUSB0'') (Exited ''Traceback'' [])"
        and c = "''/dev/ttyUSB0''" and ep = "''/ext''" and w = "initial_world 0" and dirPath = "''/''"
        and outcome = "Exited ''Traceback'' []" and stdout = "''Traceback''" and stderr = "[]"]
      listDirPyRaw_outcomes [where e = "board_env (Some ''/dev/ttyUSB0'')
            (Failed ''Command failed'' [] ''could not open port'')"
        and c = "''/dev/ttyUSB0''" and ep = "''/ext''" and w = "initial_world 0" and dirPath = "''/''"
        and outcome = "Failed ''Command failed'' [] ''could not open port''"
        and message = "''Command failed''" and stdout = "[]" and stderr = "''could not open port''"]
      listDirPyRaw_outcomes [where e = "board_env (Some ''/dev/ttyUSB0'') (Failed ''Command failed'' [] [])"
        and c = "''/dev/ttyUSB0''" and ep = "''/ext''" and w = "initial_world 0" and dirPath = "''/''"
        and outcome = "Failed ''Command failed'' [] []"
        and message = "''Command failed''" and stdout = "[]"]
    by (simp add: board_env_simps p)
qed

text \<open>
  C5. The port is read from the configuration at the start of each operation and kept
  nowhere else. A poll tick that passes its guard computes the reader's arguments from the
  \<^verbatim>\<open>connect\<close> setting of that moment, and the reader is later spawned with exactly these
  arguments, whatever the environment and the world have become meanwhile. A listing that
  runs passes the \<^verbatim>\<open>connect\<close> setting of its own call as \<^verbatim>\<open>--port\<close>, in any world,
  so also in the one a listing under another setting has just left behind.
\<close>

theorem port_read_at_each_operation:
  "(running (mon w) \<and> \<not> busy (mon w) \<longrightarrow>
      tick_enter e w =
        Some [''-m'', ''serial.tools.miniterm'',
              device_of (case config e None ''microPythonWorkBench.connect'' of
                           None \<Rightarrow> ''auto'' | Some c \<Rightarrow> c),
              ''115200'', ''--eol'', ''LF''])
   \<and> arguments (last (procs (tick_spawn e' args w'))) = args
   \<and> (config e None ''microPythonWorkBench.connect'' = Some c \<and> c \<noteq> [] \<and> c \<noteq> ''auto''
        \<and> extensionPath e = Some ep
       \<longrightarrow> arguments (last (procs (snd (listDirPyRaw e dirPath w)))) ! 2 = device_of c)
   \<and> (config e None ''microPythonWorkBench.connect'' = Some c \<and> c \<noteq> [] \<and> c \<noteq> ''auto''
        \<and> extensionPath e = Some ep
        \<and> config e_next None ''microPythonWorkBench.connect'' = Some c_next \<and> c_next \<noteq> [] \<and> c_next \<noteq> ''auto''
        \<and> extensionPath e_next = Some ep_next
       \<longrightarrow> arguments (last (procs (snd (listDirPyRaw e_next dirPath_next (snd (listDirPyRaw e dirPath w))))))
             ! 2 = device_of c_next)"
proof -
  have a: "running (mon w) \<and> \<not> busy (mon w) \<longrightarrow>
      tick_enter e w =
        Some [''-m'', ''serial.tools.miniterm'',
              device_of (case config e None ''microPythonWorkBench.connect'' of
                           None \<Rightarrow> ''auto'' | Some c \<Rightarrow> c),
              ''115200'', ''--eol'', ''LF'']"
    by (simp add: tick_enter_def Let_def)
  have b: "arguments (last (procs (tick_spawn e' args w'))) = args"
    by (simp add: tick_spawn_last)
  have c: "arguments (last (procs (snd (listDirPyRaw x d v)))) ! 2 = device_of p"
    if "config x None ''microPythonWorkBench.connect'' = Some p" "p \<noteq> []" "p \<noteq> ''auto''"
      "extensionPath x = Some q" for x d v p q
    by (simp add: listDirPyRaw_procs[OF that])
  from a b c show ?thesis by blast
qed

theorem port_read_at_each_operation_witness:
  "running (mon (start (initial_world 0))) \<and> \<not> busy (mon (start (initial_world 0)))
   \<and> tick_enter (linux_env (Some ''serial:///dev/ttyUSB0'')) (start (initial_world 0)) =
        Some [''-m'', ''serial.tools.miniterm'', ''/dev/ttyUSB0'', ''115200'', ''--eol'', ''LF'']
   \<and> tick_enter (linux_env (Some ''COM3'')) (start (initial_world 0)) =
        Some [''-m'', ''serial.tools.miniterm'', ''COM3'', ''115200'', ''--eol'', ''LF'']
   \<and> arguments (last (procs (snd (listDirPyRaw (linux_env (Some ''/dev/ttyUSB0'')) ''/''
        (initial_world 0))))) ! 2 = ''/dev/ttyUSB0''
   \<and> arguments (last (procs (snd (listDirPyRaw (linux_env (Some ''/dev/ttyACM0'')) ''/lib''
        (snd (listDirPyRaw (linux_env (Some ''/dev/ttyUSB0'')) ''/'' (initial_world 0))))))) ! 2
       = ''/dev/ttyACM0''"
proof -
  have s: "running (mon (start (initial_world 0)))" "\<not> busy (mon (start (initial_world 0)))"
    by (simp_all add: start_def schedule_def initial_world_def Let_def)
  have d: "device_of ''serial:///dev/ttyUSB0'' = ''/dev/ttyUSB0''" "device_of ''COM3'' = ''COM3''"
    "device_of ''/dev/ttyUSB0'' = ''/dev/ttyUSB0''" "device_of ''/dev/ttyACM0'' = ''/dev/ttyACM0''"
    by (simp_all add: device_of_def replace_prefix_def startsWith_def)
  show ?thesis
    using
      port_read_at_each_operation [where w = "start (initial_world 0)"
        and e = "linux_env (Some ''serial:///dev/ttyUSB0'')"]
      port_read_at_each_operation [where w = "start (initial_world 0)"
        and e = "linux_env (Some ''COM3'')"]
      port_read_at_each_operation [where w = "initial_world 0"
        and e = "linux_env (Some ''/dev/ttyUSB0'')" and c = "''/dev/ttyUSB0''" and ep = "''/ext''"
        and dirPath = "''/''" and e_next = "linux_env (Some ''/dev/ttyACM0'')" and c_next = "''/dev/ttyACM0''"
        and ep_next = "''/ext''" and dirPath_next = "''/lib''"]
      s d
    by (simp add: linux_env_simps)
qed

text \<open>
  C6, as the code has it. A listing that runs launches, after whatever the interpreter
  lookup launched, exactly one subprocess: the interpreter with the arguments
  \<^verbatim>\<open><script> --port <device> --baudrate 115200 --path <dirPath>\<close> and a timeout of
  10000 ms, where the device is the configured \<^verbatim>\<open>connect\<close> value without its
  \<^verbatim>\<open>serial://\<close> prefix. The baud rate is the constant 115200.
\<close>

theorem listing_invocation_form:
  assumes "config e None ''microPythonWorkBench.connect'' = Some c" "c \<noteq> []" "c \<noteq> ''auto''"
    and "extensionPath e = Some ep"
  shows "procs (snd (listDirPyRaw e dirPath w)) =
     procs (snd (getPythonPath e None w)) @
       [\<lparr>program = fst (getPythonPath e None w),
         arguments = [path_join e [ep, ''scripts'', ''thonny_list_files.py''],
                      ''--port'', device_of c, ''--baudrate'', ''115200'', ''--path'', dirPath],
         timeout_ms = Some 10000\<rparr>]"
  using assms by (rule listDirPyRaw_procs)

theorem listing_invocation_form_witness:
  "last (procs (snd (listDirPyRaw (linux_env (Some ''serial:///dev/ttyUSB0'')) ''/lib'' (initial_world 0))))
     = \<lparr>program = fst (getPythonPath (linux_env (Some ''serial:///dev/ttyUSB0'')) None (initial_world 0)),
        arguments = [''/ext/scripts/thonny_list_files.py'', ''--port'', ''/dev/ttyUSB0'',
                     ''--baudrate'', ''115200'', ''--path'', ''/lib''],
        timeout_ms = Some 10000\<rparr>"
proof -
  have d: "device_of ''serial:///dev/ttyUSB0'' = ''/dev/ttyUSB0''"
    by (simp add: device_of_def replace_prefix_def startsWith_def)
  show ?thesis
    using listing_invocation_form [where e = "linux_env (Some ''serial:///dev/ttyUSB0'')"
        and c = "''serial:///dev/ttyUSB0''" and ep = "''/ext''" and dirPath = "''/lib''"
        and w = "initial_world 0"]
    by (simp add: linux_env_simps d posix_join_script)
qed

text \<open>
  C6 as stated fails on the baud rate: a baud rate of 9600 in the settings is not read,
  the tool is still invoked with 115200.
\<close>

theorem configured_baud_rate_counterexample:
  "config baud_9600_env None ''microPythonWorkBench.baudrate'' = Some ''9600''
   \<and> arguments (last (procs (snd (listDirPyRaw baud_9600_env ''/'' (initial_world 0)))))
       = [''/ext/scripts/thonny_list_files.py'', ''--port'', ''/dev/ttyUSB0'',
          ''--baudrate'', ''115200'', ''--path'', ''/'']"
proof -
  have c: "config baud_9600_env None ''microPythonWorkBench.connect'' = Some ''/dev/ttyUSB0''"
    "config baud_9600_env None ''microPythonWorkBench.baudrate'' = Some ''9600''"
    "extensionPath baud_9600_env = Some ''/ext''" "path_join baud_9600_env = posix_join"
    by (simp_all add: baud_9600_env_def linux_env_def)
  have d: "device_of ''/dev/ttyUSB0'' = ''/dev/ttyUSB0''"
    by (simp add: device_of_def replace_prefix_def startsWith_def)
  have "''/dev/ttyUSB0'' \<noteq> []" "''/dev/ttyUSB0'' \<noteq> ''auto''" by simp_all
  from listDirPyRaw_procs[OF c(1) this c(3), of "''/''" "initial_world 0"]
  show ?thesis by (simp add: c d posix_join_script)
qed

section \<open>getActionNodes\<close>

lemma head_label: "label (hd (getActionNodes e)) = autoSyncLabel e"
  by (simp add: getActionNodes_def)

lemma workspace_env_simps:
  "workspaceFolder (workspace_env content setting) = Some ''/ws''"
  "existsSync (workspace_env content setting) ''/ws/.mpy-workbench/config.json'' = (content \<noteq> None)"
  "readFileSync (workspace_env (Some text) setting) ''/ws/.mpy-workbench/config.json'' = Returns text"
  "JSON_parse (workspace_env content setting) = small_parser"
  "config_bool (workspace_env content setting) ''microPythonWorkBench.autoSyncOnSave'' = setting"
  by (simp_all add: workspace_env_def linux_env_def)

text \<open>
  C7, as the code has it. getActionNodes keeps no state: the label of the first node is
  computed from the file system and the settings as they are at the call. With no
  workspace folder the label is \<^verbatim>\<open>Toggle AutoSync\<close>. With a workspace folder: when
  \<^verbatim>\<open>.mpy-workbench/config.json\<close> does not exist, the flag is the VS Code setting
  (default false); when the file exists but cannot be read, does not parse, or parses to
  \<^verbatim>\<open>null\<close>, the exception is swallowed, no flag is determined and the label stays
  \<^verbatim>\<open>Toggle AutoSync\<close>; when it parses to an object with a boolean \<^verbatim>\<open>autoSyncOnSave\<close>
  member, the flag is that member; any other parsed value falls back to the VS Code
  setting. The label shows ON or OFF according to the flag.
\<close>

theorem autoSync_flag_read:
  "(workspaceFolder e = None \<longrightarrow> label (hd (getActionNodes e)) = ''Toggle AutoSync'')
   \<and> (workspaceFolder e = Some ws \<longrightarrow>
        (\<not> existsSync e (ws @ ''/.mpy-workbench/config.json'')
          \<longrightarrow> autoSync_enabled e ws =
                Returns (case config_bool e ''microPythonWorkBench.autoSyncOnSave'' of
                           None \<Rightarrow> False | Some b \<Rightarrow> b)
              \<and> label (hd (getActionNodes e)) =
                  (if (case config_bool e ''microPythonWorkBench.autoSyncOnSave'' of
                         None \<Rightarrow> False | Some b \<Rightarrow> b)
                   then ''AutoSync: ON (click to disable)'' else ''AutoSync: OFF (click to enable)''))
      \<and> (existsSync e (ws @ ''/.mpy-workbench/config.json'')
          \<and> readFileSync e (ws @ ''/.mpy-workbench/config.json'') = Throws x
          \<longrightarrow> autoSync_enabled e ws = Throws x
              \<and> label (hd (getActionNodes e)) = ''Toggle AutoSync'')
      \<and> (existsSync e (ws @ ''/.mpy-workbench/config.json'')
          \<and> readFileSync e (ws @ ''/.mpy-workbench/config.json'') = Returns content
          \<and> JSON_parse e content = None
          \<longrightarrow> autoSync_enabled e ws = Throws ''SyntaxError''
              \<and> label (hd (getActionNodes e)) = ''Toggle AutoSync'')
      \<and> (existsSync e (ws @ ''/.mpy-workbench/config.json'')
          \<and> readFileSync e (ws @ ''/.mpy-workbench/config.json'') = Returns content
          \<and> JSON_parse e content = Some JNull
          \<longrightarrow> autoSync_enabled e ws = Throws ''TypeError''
              \<and> label (hd (getActionNodes e)) = ''Toggle AutoSync'')
      \<and> (existsSync e (ws @ ''/.mpy-workbench/config.json'')
          \<and> readFileSync e (ws @ ''/.mpy-workbench/config.json'') = Returns content
          \<and> JSON_parse e content = Some (JObject members)
          \<and> map_of (rev members) ''autoSyncOnSave'' = Some (JBool flag)
          \<longrightarrow> autoSync_enabled e ws = Returns flag
              \<and> label (hd (getActionNodes e)) =
                  (if flag then ''AutoSync: ON (click to disable)''
                   else ''AutoSync: OFF (click to enable)''))
      \<and> (existsSync e (ws @ ''/.mpy-workbench/config.json'')
          \<and> readFileSync e (ws @ ''/.mpy-workbench/config.json'') = Returns content
          \<and> JSON_parse e content = Some j \<and> j \<noteq> JNull
          \<and> (\<forall>members. j = JObject members
                \<longrightarrow> (\<forall>b. map_of (rev members) ''autoSyncOnSave'' \<noteq> Some (JBool b)))
          \<longrightarrow> autoSync_enabled e ws =
                Returns (case config_bool e ''microPythonWorkBench.autoSyncOnSave'' of
                           None \<Rightarrow> False | Some b \<Rightarrow> b)
              \<and> label (hd (getActionNodes e)) =
                  (if (case config_bool e ''microPythonWorkBench.autoSyncOnSave'' of
                         None \<Rightarrow> False | Some b \<Rightarrow> b)
                   then ''AutoSync: ON (click to disable)'' else ''AutoSync: OFF (click to enable)'')))"
proof -
  let ?file = "ws @ ''/.mpy-workbench/config.json''"
  let ?fallback = "case config_bool e ''microPythonWorkBench.autoSyncOnSave'' of
                       None \<Rightarrow> False | Some b \<Rightarrow> b"
  have none: "workspaceFolder e = None \<longrightarrow> label (hd (getActionNodes e)) = ''Toggle AutoSync''"
    by (simp add: head_label autoSyncLabel_def)
  have lab: "label (hd (getActionNodes e)) =
       (case autoSync_enabled e ws of
          Throws x \<Rightarrow> ''Toggle AutoSync''
        | Returns enabled \<Rightarrow>
            if enabled then ''AutoSync: ON (click to disable)'' else ''AutoSync: OFF (click to enable)'')"
    if "workspaceFolder e = Some ws"
    using that by (simp add: head_label autoSyncLabel_def)
  have absent: "autoSync_enabled e ws = Returns ?fallback" if "\<not> existsSync e ?file"
    using that by (simp add: autoSync_enabled_def Let_def get_autoSyncOnSave_def)
  have unread: "autoSync_enabled e ws = Throws x"
    if "existsSync e ?file" "readFileSync e ?file = Throws x"
    using that by (simp add: autoSync_enabled_def Let_def)
  have unparsed: "autoSync_enabled e ws = Throws ''SyntaxError''"
    if "existsSync e ?file" "readFileSync e ?file = Returns content" "JSON_parse e content = None"
    using that by (simp add: autoSync_enabled_def Let_def)
  have parsed: "autoSync_enabled e ws =
      (case get_autoSyncOnSave v of
         Throws x \<Rightarrow> Throws x
       | Returns (Some (JBool b)) \<Rightarrow> Returns b
       | Returns _ \<Rightarrow> Returns ?fallback)"
    if "existsSync e ?file" "readFileSync e ?file = Returns content" "JSON_parse e content = Some v"
    for v
    using that by (simp add: autoSync_enabled_def Let_def)
  have null: "autoSync_enabled e ws = Throws ''TypeError''"
    if "existsSync e ?file" "readFileSync e ?file = Returns content" "JSON_parse e content = Some JNull"
    using parsed[OF that] by (simp add: get_autoSyncOnSave_def)
  have member: "autoSync_enabled e ws = Returns flag"
    if "existsSync e ?file" "readFileSync e ?file = Returns content"
      "JSON_parse e content = Some (JObject members)"
      "map_of (rev members) ''autoSyncOnSave'' = Some (JBool flag)"
    using parsed[OF that(1-3)] that(4) by (simp add: get_autoSyncOnSave_def)
  have other: "autoSync_enabled e ws = Returns ?fallback"
    if "existsSync e ?file" "readFileSync e ?file = Returns content"
      "JSON_parse e content = Some j" "j \<noteq> JNull"
      "\<forall>members. j = JObject members
          \<longrightarrow> (\<forall>b. map_of (rev members) ''autoSyncOnSave'' \<noteq> Some (JBool b))"
    using parsed[OF that(1-3)] that(4,5)
    by (cases j) (auto simp add: get_autoSyncOnSave_def split: option.splits json.splits)
  have folder: "workspaceFolder e = Some ws \<longrightarrow>
        (\<not> existsSync e ?file
          \<longrightarrow> autoSync_enabled e ws = Returns ?fallback
              \<and> label (hd (getActionNodes e)) =
                  (if ?fallback
                   then ''AutoSync: ON (click to disable)'' else ''AutoSync: OFF (click to enable)''))
      \<and> (existsSync e ?file \<and> readFileSync e ?file = Throws x
          \<longrightarrow> autoSync_enabled e ws = Throws x
              \<and> label (hd (getActionNodes e)) = ''Toggle AutoSync'')
      \<and> (existsSync e ?file \<and> readFileSync e ?file = Returns content
          \<and> JSON_parse e content = None
          \<longrightarrow> autoSync_enabled e ws = Throws ''SyntaxError''
              \<and> label (hd (getActionNodes e)) = ''Toggle AutoSync'')
      \<and> (existsSync e ?file \<and> readFileSync e ?file = Returns content
          \<and> JSON_parse e content = Some JNull
          \<longrightarrow> autoSync_enabled e ws = Throws ''TypeError''
              \<and> label (hd (getActionNodes e)) = ''Toggle AutoSync'')
      \<and> (existsSync e ?file \<and> readFileSync e ?file = Returns content
          \<and> JSON_parse e content = Some (JObject members)
          \<and> map_of (rev members) ''autoSyncOnSave'' = Some (JBool flag)
          \<longrightarrow> autoSync_enabled e ws = Returns flag
              \<and> label (hd (getActionNodes e)) =
                  (if flag then ''AutoSync: ON (click to disable)''
                   else ''AutoSync: OFF (click to enable)''))
      \<and> (existsSync e ?file \<and> readFileSync e ?file = Returns content
          \<and> JSON_parse e content = Some j \<and> j \<noteq> JNull
          \<and> (\<forall>members. j = JObject members
                \<longrightarrow> (\<forall>b. map_of (rev members) ''autoSyncOnSave'' \<noteq> Some (JBool b)))
          \<longrightarrow> autoSync_enabled e ws = Returns ?fallback
              \<and> label (hd (getActionNodes e)) =
                  (if ?fallback
                   then ''AutoSync: ON (click to disable)'' else ''AutoSync: OFF (click to enable)''))"
  proof
    assume ws: "workspaceFolder e = Some ws"
    note l = lab[OF ws]
    have 1: "\<not> existsSync e ?file
          \<longrightarrow> autoSync_enabled e ws = Returns ?fallback
              \<and> label (hd (getActionNodes e)) =
                  (if ?fallback
                   then ''AutoSync: ON (click to disable)'' else ''AutoSync: OFF (click to enable)'')"
    proof
      assume h: "\<not> existsSync e ?file"
      show "autoSync_enabled e ws = Returns ?fallback
              \<and> label (hd (getActionNodes e)) =
                  (if ?fallback
                   then ''AutoSync: ON (click to disable)'' else ''AutoSync: OFF (click to enable)'')"
        unfolding l absent[OF h] by simp
    qed
    have 2: "existsSync e ?file \<and> readFileSync e ?file = Throws x
          \<longrightarrow> autoSync_enabled e ws = Throws x
              \<and> label (hd (getActionNodes e)) = ''Toggle AutoSync''"
    proof
      assume h: "existsSync e ?file \<and> readFileSync e ?file = Throws x"
      then have "autoSync_enabled e ws = Throws x" by (intro unread) simp_all
      then show "autoSync_enabled e ws = Throws x
              \<and> label (hd (getActionNodes e)) = ''Toggle AutoSync''"
        unfolding l by simp
    qed
    have 3: "existsSync e ?file \<and> readFileSync e ?file = Returns content
          \<and> JSON_parse e content = None
          \<longrightarrow> autoSync_enabled e ws = Throws ''SyntaxError''
              \<and> label (hd (getActionNodes e)) = ''Toggle AutoSync''"
    proof
      assume h: "existsSync e ?file \<and> readFileSync e ?file = Returns content
          \<and> JSON_parse e content = None"
      then have "autoSync_enabled e ws = Throws ''SyntaxError''" by (intro unparsed) simp_all
      then show "autoSync_enabled e ws = Throws ''SyntaxError''
              \<and> label (hd (getActionNodes e)) = ''Toggle AutoSync''"
        unfolding l by simp
    qed
    have 4: "existsSync e ?file \<and> readFileSync e ?file = Returns content
          \<and> JSON_parse e content = Some JNull
          \<longrightarrow> autoSync_enabled e ws = Throws ''TypeError''
              \<and> label (hd (getActionNodes e)) = ''Toggle AutoSync''"
    proof
      assume h: "existsSync e ?file \<and> readFileSync e ?file = Returns content
          \<and> JSON_parse e content = Some JNull"
      then have "autoSync_enabled e ws = Throws ''TypeError''" by (intro null) simp_all
      then show "autoSync_enabled e ws = Throws ''TypeError''
              \<and> label (hd (getActionNodes e)) = ''Toggle AutoSync''"
        unfolding l by simp
    qed
    have 5: "existsSync e ?file \<and> readFileSync e ?file = Returns content
          \<and> JSON_parse e content = Some (JObject members)
          \<and> map_of (rev members) ''autoSyncOnSave'' = Some (JBool flag)
          \<longrightarrow> autoSync_enabled e ws = Returns flag
              \<and> label (hd (getActionNodes e)) =
                  (if flag then ''AutoSync: ON (click to disable)''
                   else ''AutoSync: OFF (click to enable)'')"
    proof
      assume h: "existsSync e ?file \<and> readFileSync e ?file = Returns content
          \<and> JSON_parse e content = Some (JObject members)
          \<and> map_of (rev members) ''autoSyncOnSave'' = Some (JBool flag)"
      then have "autoSync_enabled e ws = Returns flag" by (intro member) simp_all
      then show "autoSync_enabled e ws = Returns flag
              \<and> label (hd (getActionNodes e)) =
                  (if flag then ''AutoSync: ON (click to disable)''
                   else ''AutoSync: OFF (click to enable)'')"
        unfolding l by simp
    qed
    have 6: "existsSync e ?file \<and> readFileSync e ?file = Returns content
          \<and> JSON_parse e content = Some j \<and> j \<noteq> JNull
          \<and> (\<forall>members. j = JObject members
                \<longrightarrow> (\<forall>b. map_of (rev members) ''autoSyncOnSave'' \<noteq> Some (JBool b)))
          \<longrightarrow> autoSync_enabled e ws = Returns ?fallback
              \<and> label (hd (getActionNodes e)) =
                  (if ?fallback
                   then ''AutoSync: ON (click to disable)'' else ''AutoSync: OFF (click to enable)'')"
    proof
      assume h: "existsSync e ?file \<and> readFileSync e ?file = Returns content
          \<and> JSON_parse e content = Some j \<and> j \<noteq> JNull
          \<and> (\<forall>members. j = JObject members
                \<longrightarrow> (\<forall>b. map_of (rev members) ''autoSyncOnSave'' \<noteq> Some (JBool b)))"
      then have "autoSync_enabled e ws = Returns ?fallback" by (intro other) simp_all
      then show "autoSync_enabled e ws = Returns ?fallback
              \<and> label (hd (getActionNodes e)) =
                  (if ?fallback
                   then ''AutoSync: ON (click to disable)'' else ''AutoSync: OFF (click to enable)'')"
        unfolding l by simp
    qed
    from 1 2 3 4 5 6 show "(\<not> existsSync e ?file
          \<longrightarrow> autoSync_enabled e ws = Returns ?fallback
              \<and> label (hd (getActionNodes e)) =
                  (if ?fallback
                   then ''AutoSync: ON (click to disable)'' else ''AutoSync: OFF (click to enable)''))
      \<and> (existsSync e ?file \<and> readFileSync e ?file = Throws x
          \<longrightarrow> autoSync_enabled e ws = Throws x
              \<and> label (hd (getActionNodes e)) = ''Toggle AutoSync'')
      \<and> (existsSync e ?file \<and> readFileSync e ?file = Returns content
          \<and> JSON_parse e content = None
          \<longrightarrow> autoSync_enabled e ws = Throws ''SyntaxError''
              \<and> label (hd (getActionNodes e)) = ''Toggle AutoSync'')
      \<and> (existsSync e ?file \<and> readFileSync e ?file = Returns content
          \<and> JSON_parse e content = Some JNull
          \<longrightarrow> autoSync_enabled e ws = Throws ''TypeError''
              \<and> label (hd (getActionNodes e)) = ''Toggle AutoSync'')
      \<and> (existsSync e ?file \<and> readFileSync e ?file = Returns content
          \<and> JSON_parse e content = Some (JObject members)
          \<and> map_of (rev members) ''autoSyncOnSave'' = Some (JBool flag)
          \<longrightarrow> autoSync_enabled e ws = Returns flag
              \<and> label (hd (getActionNodes e)) =
                  (if flag then ''AutoSync: ON (click to disable)''
                   else ''AutoSync: OFF (click to enable)''))
      \<and> (existsSync e ?file \<and> readFileSync e ?file = Returns content
          \<and> JSON_parse e content = Some j \<and> j \<noteq> JNull
          \<and> (\<forall>members. j = JObject members
                \<longrightarrow> (\<forall>b. map_of (rev members) ''autoSyncOnSave'' \<noteq> Some (JBool b)))
          \<longrightarrow> autoSync_enabled e ws = Returns ?fallback
              \<and> label (hd (getActionNodes e)) =
                  (if ?fallback
                   then ''AutoSync: ON (click to disable)'' else ''AutoSync: OFF (click to enable)''))"
      by (intro conjI)
  qed
  from none folder show ?thesis by (rule conjI)
qed

lemma small_parser_simps:
  "small_parser ''{\"autoSyncOnSave\": true}'' = Some (JObject [(''autoSyncOnSave'', JBool True)])"
  "small_parser ''{\"autoSyncOnSave\": false}'' = Some (JObject [(''autoSyncOnSave'', JBool False)])"
  "small_parser ''{\"autoSyncOnSave\": \"yes\"}'' = Some (JObject [(''autoSyncOnSave'', JString ''yes'')])"
  "small_parser ''{}'' = Some (JObject [])"
  "small_parser ''[]'' = Some (JArray [])"
  "small_parser ''null'' = Some JNull"
  "small_parser ''{'' = None"
  by (simp_all add: small_parser_def)

lemma no_folder_env_simps:
  "workspaceFolder (no_folder_env setting) = None"
  by (simp add: no_folder_env_def)

lemma unreadable_env_simps:
  "workspaceFolder (unreadable_env setting) = Some ''/ws''"
  "existsSync (unreadable_env setting) ''/ws/.mpy-workbench/config.json''"
  "readFileSync (unreadable_env setting) ''/ws/.mpy-workbench/config.json'' = Throws ''EACCES''"
  by (simp_all add: unreadable_env_def workspace_env_def linux_env_def)

lemma small_parser_rejects: "small_parser ''not json'' = None"
  by (simp add: small_parser_def)


theorem autoSync_flag_read_witness:
  "label (hd (getActionNodes (no_folder_env (Some True)))) = ''Toggle AutoSync''
   \<and> label (hd (getActionNodes (workspace_env None None))) = ''AutoSync: OFF (click to enable)''
   \<and> label (hd (getActionNodes (workspace_env None (Some True)))) = ''AutoSync: ON (click to disable)''
   \<and> label (hd (getActionNodes (unreadable_env (Some True)))) = ''Toggle AutoSync''
   \<and> label (hd (getActionNodes (workspace_env (Some ''not json'') (Some True)))) = ''Toggle AutoSync''
   \<and> label (hd (getActionNodes (workspace_env (Some ''null'') (Some True)))) = ''Toggle AutoSync''
   \<and> label (hd (getActionNodes (workspace_env (Some ''{\"autoSyncOnSave\": true}'') (Some False))))
       = ''AutoSync: ON (click to disable)''
   \<and> label (hd (getActionNodes (workspace_env (Some ''{\"autoSyncOnSave\": false}'') (Some True))))
       = ''AutoSync: OFF (click to enable)''
   \<and> label (hd (getActionNodes (workspace_env (Some ''{\"autoSyncOnSave\": \"yes\"}'') (Some True))))
       = ''AutoSync: ON (click to disable)''
   \<and> label (hd (getActionNodes (workspace_env (Some ''[]'') (Some True))))
       = ''AutoSync: ON (click to disable)''"
  using
    autoSync_flag_read [where e = "no_folder_env (Some True)"]
    autoSync_flag_read [where e = "workspace_env None None" and ws = "''/ws''"]
    autoSync_flag_read [where e = "workspace_env None (Some True)" and ws = "''/ws''"]
    autoSync_flag_read [where e = "unreadable_env (Some True)" and ws = "''/ws''" and x = "''EACCES''"]
    autoSync_flag_read [where e = "workspace_env (Some ''not json'') (Some True)"
      and ws = "''/ws''" and content = "''not json''"]
    autoSync_flag_read [where e = "workspace_env (Some ''null'') (Some True)"
      and ws = "''/ws''" and content = "''null''"]
    autoSync_flag_read [where e = "workspace_env (Some ''{\"autoSyncOnSave\": true}'') (Some False)"
      and ws = "''/ws''" and content = "''{\"autoSyncOnSave\": true}''"
      and members = "[(''autoSyncOnSave'', JBool True)]" and flag = True]
    autoSync_flag_read [where e = "workspace_env (Some ''{\"autoSyncOnSave\": false}'') (Some True)"
      and ws = "''/ws''" and content = "''{\"autoSyncOnSave\": false}''"
      and members = "[(''autoSyncOnSave'', JBool False)]" and flag = False]
    autoSync_flag_read [where e = "workspace_env (Some ''{\"autoSyncOnSave\": \"yes\"}'') (Some True)"
      and ws = "''/ws''" and content = "''{\"autoSyncOnSave\": \"yes\"}''"
      and j = "JObject [(''autoSyncOnSave'', JString ''yes'')]"]
    autoSync_flag_read [where e = "workspace_env (Some ''[]'') (Some True)"
      and ws = "''/ws''" and content = "''[]''" and j = "JArray []"]
  by (simp add: workspace_env_simps small_parser_simps no_folder_env_simps unreadable_env_simps
      small_parser_rejects)


text \<open>
  C7 as stated fails for a record that exists but does not parse: it contains no boolean
  \<^verbatim>\<open>autoSyncOnSave\<close>, yet the VS Code setting (here true) is not consulted; the
  exception is swallowed and the label stays \<^verbatim>\<open>Toggle AutoSync\<close>.
\<close>

theorem unparsable_record_counterexample:
  "existsSync (workspace_env (Some ''{'') (Some True)) ''/ws/.mpy-workbench/config.json''
   \<and> JSON_parse (workspace_env (Some ''{'') (Some True)) ''{'' = None
   \<and> config_bool (workspace_env (Some ''{'') (Some True)) ''microPythonWorkBench.autoSyncOnSave'' = Some True
   \<and> autoSync_enabled (workspace_env (Some ''{'') (Some True)) ''/ws'' = Throws ''SyntaxError''
   \<and> label (hd (getActionNodes (workspace_env (Some ''{'') (Some True)))) = ''Toggle AutoSync''"
  by (simp add: head_label autoSyncLabel_def autoSync_enabled_def Let_def workspace_env_simps
      small_parser_simps)

end
